theory Spec2Isabelle
  imports Main
begin

section \<open>Python values\<close>

text \<open>
  The endpoint methods of \<open>APIUrl\<close> are dynamically typed. An argument is \<open>None\<close>, a
  \<open>bool\<close>, an \<open>int\<close>, a \<open>float\<close>, a \<open>str\<close> or a \<open>datetime.date\<close>. The code
  observes a float only through its truth value and through \<open>str()\<close>, so a float is
  carried as its \<open>str()\<close> text (\<open>''0.0''\<close> and \<open>''-0.0''\<close> are the two floats that are
  false). A \<open>str\<close> is carried as the bytes of its UTF-8 encoding, which is what
  \<open>urlencode(..., encoding="utf-8")\<close> quotes.
\<close>

datatype pyval =
    PNone
  | PBool bool
  | PInt int
  | PFloat string
  | PStr string
  | PDate nat nat nat

text \<open>
  A list is modelled where the code iterates over it: \<open>country\<close>, \<open>feature_class\<close>
  and \<open>feature_code\<close> of \<open>search\<close> and \<open>country\<close> of \<open>country_info\<close>. A list
  passed for any other parameter, which the code would turn into text by \<open>str()\<close>, is
  outside the model.
\<close>

datatype pyarg = Val pyval | PList "pyval list"

datatype error = AssertionError | TypeError | AttributeError

type_synonym keys = "(string \<times> string) list"

subsection \<open>Truth value, \<open>str()\<close>, \<open>str.upper()\<close>\<close>

fun truthy :: "pyval \<Rightarrow> bool" where
  "truthy PNone = False"
| "truthy (PBool b) = b"
| "truthy (PInt i) = (i \<noteq> 0)"
| "truthy (PFloat s) = (s \<noteq> ''0.0'' \<and> s \<noteq> ''-0.0'')"
| "truthy (PStr s) = (s \<noteq> [])"
| "truthy (PDate y m d) = True"

definition digit_char :: "nat \<Rightarrow> char" where
  "digit_char n = ''0123456789'' ! (n mod 10)"

function str_nat :: "nat \<Rightarrow> string" where
  "str_nat n = (if n < 10 then [digit_char n] else str_nat (n div 10) @ [digit_char (n mod 10)])"
  by pat_completeness auto
termination
  by (relation "measure (\<lambda>n. n)") auto

declare str_nat.simps [simp del]

definition str_int :: "int \<Rightarrow> string" where
  "str_int i = (if i < 0 then CHR ''-'' # str_nat (nat (- i)) else str_nat (nat i))"

text \<open>Zero padding to a width, as \<open>%04d\<close> and \<open>%02d\<close> do.\<close>

definition zero_pad :: "nat \<Rightarrow> string \<Rightarrow> string" where
  "zero_pad w s = replicate (w - length s) CHR ''0'' @ s"

text \<open>
  \<open>str()\<close> of a date is \<open>date.isoformat()\<close>, which the library computes itself: year,
  month and day in four, two and two digits. \<open>str()\<close> of an \<open>int\<close> is its decimal text.
\<close>

definition isoformat :: "nat \<Rightarrow> nat \<Rightarrow> nat \<Rightarrow> string" where
  "isoformat y m d =
     zero_pad 4 (str_nat y) @ ''-'' @ zero_pad 2 (str_nat m) @ ''-'' @ zero_pad 2 (str_nat d)"

text \<open>
  \<open>date.strftime("%Y-%m-%d")\<close> hands the format to the C library. With glibc \<open>%Y\<close> is
  the year as a decimal number without padding, so the first of January of the year 999 is
  written \<open>999-01-01\<close>; \<open>%m\<close> and \<open>%d\<close> have two digits. From the year 1000 on the
  text is that of \<open>isoformat\<close>.
\<close>

definition strftime_ymd :: "nat \<Rightarrow> nat \<Rightarrow> nat \<Rightarrow> string" where
  "strftime_ymd y m d =
     str_nat y @ ''-'' @ zero_pad 2 (str_nat m) @ ''-'' @ zero_pad 2 (str_nat d)"

fun py_str :: "pyval \<Rightarrow> string" where
  "py_str PNone = ''None''"
| "py_str (PBool b) = (if b then ''True'' else ''False'')"
| "py_str (PInt i) = str_int i"
| "py_str (PFloat s) = s"
| "py_str (PStr s) = s"
| "py_str (PDate y m d) = isoformat y m d"

text \<open>
  \<open>str.upper()\<close>, as far as the code observes it: the code only compares the result
  with \<open>"JSON"\<close> and \<open>"CSV"\<close>. An ASCII letter goes to its capital. The two letters
  outside ASCII whose capital is an ASCII letter are the long s (U+017F, bytes \<open>C5 BF\<close>,
  capital \<open>S\<close>) and the dotless i (U+0131, bytes \<open>C4 B1\<close>, capital \<open>I\<close>). The bytes
  of every other character are left as they are: its capital has a character outside ASCII
  or one of the pairs \<open>SS\<close>, \<open>ST\<close>, \<open>FF\<close>, \<open>FI\<close>, \<open>FL\<close>, so the result differs
  from \<open>"JSON"\<close> and from \<open>"CSV"\<close> either way.
\<close>

definition upper_char :: "char \<Rightarrow> char" where
  "upper_char c =
     (let n = (of_char c :: nat)
      in if 97 \<le> n \<and> n \<le> 122 then ''ABCDEFGHIJKLMNOPQRSTUVWXYZ'' ! (n - 97) else c)"

fun upper :: "string \<Rightarrow> string" where
  "upper [] = []"
| "upper [c] = [upper_char c]"
| "upper (c # d # cs) =
     (if c = CHR 0xC5 \<and> d = CHR 0xBF then CHR ''S'' # upper cs
      else if c = CHR 0xC4 \<and> d = CHR 0xB1 then CHR ''I'' # upper cs
      else upper_char c # upper (d # cs))"

subsection \<open>\<open>urllib.parse.urlencode\<close>\<close>

text \<open>
  \<open>urlencode(keys, encoding="utf-8")\<close> on a list of pairs of strings: each key and
  value goes through \<open>quote_plus\<close>, the two are joined by \<open>=\<close> and the pairs by \<open>&\<close>.
  \<open>quote_plus\<close> keeps the letters, the digits and \<open>_.-~\<close>, writes a space as \<open>+\<close>
  and every other byte as \<open>%XX\<close> in upper-case hexadecimal.
\<close>

definition always_safe :: "char \<Rightarrow> bool" where
  "always_safe c \<longleftrightarrow>
     c \<in> set ''ABCDEFGHIJKLMNOPQRSTUVWXYZabcdefghijklmnopqrstuvwxyz0123456789_.-~''"

definition hex_digit :: "nat \<Rightarrow> char" where
  "hex_digit n = ''0123456789ABCDEF'' ! (n mod 16)"

definition quote_char :: "char \<Rightarrow> string" where
  "quote_char c =
     (if always_safe c then [c]
      else if c = CHR '' '' then ''+''
      else [CHR ''%'', hex_digit ((of_char c :: nat) div 16), hex_digit ((of_char c :: nat) mod 16)])"

definition quote_plus :: "string \<Rightarrow> string" where
  "quote_plus s = concat (map quote_char s)"

fun join :: "string \<Rightarrow> string list \<Rightarrow> string" where
  "join sep [] = []"
| "join sep [x] = x"
| "join sep (x # y # ys) = x @ sep @ join sep (y # ys)"

definition urlencode :: "keys \<Rightarrow> string" where
  "urlencode ks = join ''&'' (map (\<lambda>(k, v). quote_plus k @ ''='' @ quote_plus v) ks)"

section \<open>The configuration object\<close>

text \<open>
  \<open>APIUrl.__init__\<close> stores three attributes: \<open>username\<close>, \<open>_base_url\<close> and
  \<open>default_output_format\<close>. Its three assertions are the three failure branches.
\<close>

record APIUrl =
  username :: string
  base_url :: string
  default_output_format :: string

definition create_base_url :: "pyval \<Rightarrow> string" where
  "create_base_url secure =
     (if truthy secure then ''https://secure.geonames.org/'' else ''http://api.geonames.org/'')"

definition init :: "pyval \<Rightarrow> pyval \<Rightarrow> pyval \<Rightarrow> error + APIUrl" where
  "init uname secure default_format =
     (case uname of
        PStr u \<Rightarrow>
          (case secure of
             PBool s \<Rightarrow>
               (case default_format of
                  PStr f \<Rightarrow>
                    if f \<in> set [''JSON'', ''XML'']
                    then Inr \<lparr>username = u, base_url = create_base_url secure,
                              default_output_format = f\<rparr>
                    else Inl AssertionError
                | _ \<Rightarrow> Inl AssertionError)
           | _ \<Rightarrow> Inl AssertionError)
      | _ \<Rightarrow> Inl AssertionError)"

section \<open>Private methods\<close>

text \<open>
  \<open>additional_output_formats\<close> of \<open>_create_bare_end_point\<close> is \<open>None\<close>, a \<open>str\<close> or a
  list of \<open>str\<close>.
\<close>

datatype formats = FNone | FStr string | FList "string list"

text \<open>
  \<open>_create_bare_end_point\<close>. With a true \<open>output_format\<close> the code calls
  \<open>output_format.upper()\<close>, which only a \<open>str\<close> has (\<open>AttributeError\<close> otherwise), and
  for the format \<open>CSV\<close> it evaluates \<open>output_format.upper() in additional_output_formats\<close>,
  which raises \<open>TypeError\<close> when \<open>additional_output_formats\<close> is \<open>None\<close>.
\<close>

definition create_bare_end_point ::
  "APIUrl \<Rightarrow> pyval \<Rightarrow> string \<Rightarrow> pyval \<Rightarrow> formats \<Rightarrow> error + (string \<times> keys)" where
  "create_bare_end_point self secure end_point output_format additional_output_formats =
     (let url = (if truthy secure then create_base_url secure else base_url self) @ end_point;
          keys = [(''username'', username self)]
      in if truthy output_format then
           (case output_format of
              PStr fmt \<Rightarrow>
                (let url = (if upper fmt = ''JSON'' then url @ ''JSON'' else url);
                     additional =
                       (case additional_output_formats of
                          FNone \<Rightarrow> None
                        | FStr f \<Rightarrow> Some (map upper [f])
                        | FList fs \<Rightarrow> Some (map upper fs))
                 in if upper fmt = ''CSV'' then
                      (case additional of
                         None \<Rightarrow> Inl TypeError
                       | Some fs \<Rightarrow>
                           Inr ((if upper fmt \<in> set fs then url @ ''CSV'' else url) @ ''?'', keys))
                    else Inr (url @ ''?'', keys))
            | _ \<Rightarrow> Inl AttributeError)
         else
           Inr ((if default_output_format self = ''JSON'' then url @ ''JSON'' else url) @ ''?'',
                keys))"

text \<open>\<open>_add_key_value\<close> appends to the list \<open>keys\<close>; the model returns the new list.\<close>

definition add_key_value :: "keys \<Rightarrow> string \<Rightarrow> pyval \<Rightarrow> keys" where
  "add_key_value keys key val = (if val \<noteq> PNone then keys @ [(key, py_str val)] else keys)"

definition add_date :: "APIUrl \<Rightarrow> keys \<Rightarrow> pyval \<Rightarrow> string \<Rightarrow> keys" where
  "add_date self keys date_to_add key =
     (let date_to_add =
            (case date_to_add of
               PDate y m d \<Rightarrow> PStr (strftime_ymd y m d)
             | _ \<Rightarrow> date_to_add)
      in add_key_value keys key date_to_add)"

text \<open>
  The block that \<open>search\<close> has for \<open>country\<close>, \<open>feature_class\<close> and \<open>feature_code\<close>
  and \<open>country_info\<close> for \<open>country\<close>:
  \<^verbatim>\<open>
  if country is not None:
      if isinstance(country, str):
          country = [country]
      for c in country:
          self._add_key_value(keys, key='country', value=c)
  \<close>
  The other values of the model (a \<open>bool\<close>, an \<open>int\<close>, a \<open>float\<close>, a date) cannot be
  iterated over: \<open>TypeError\<close>.
\<close>

definition add_iterable :: "keys \<Rightarrow> string \<Rightarrow> pyarg \<Rightarrow> error + keys" where
  "add_iterable keys key arg =
     (case arg of
        Val PNone \<Rightarrow> Inr keys
      | Val (PStr s) \<Rightarrow> Inr (foldl (\<lambda>ks c. add_key_value ks key c) keys [PStr s])
      | Val _ \<Rightarrow> Inl TypeError
      | PList cs \<Rightarrow> Inr (foldl (\<lambda>ks c. add_key_value ks key c) keys cs))"

section \<open>Endpoint methods\<close>

text \<open>
  Every method but \<open>search\<close> first calls \<open>_create_bare_end_point\<close>, then checks its
  assertion, then adds its parameters to \<open>keys\<close> in a fixed order and returns
  \<open>url + urlencode(keys, encoding="utf-8")\<close>. \<open>any\<close>, \<open>all\<close>, \<open>assert x\<close> and
  \<open>x or y\<close> test truth values; \<open>None not in (...)\<close> and \<open>x is None\<close> test for \<open>None\<close>.
\<close>

definition cities_and_place_names_bounding_box ::
  "APIUrl \<Rightarrow> pyval \<Rightarrow> pyval \<Rightarrow> pyval \<Rightarrow> pyval \<Rightarrow> pyval \<Rightarrow> pyval \<Rightarrow> pyval \<Rightarrow> pyval \<Rightarrow> error + string" where
  "cities_and_place_names_bounding_box self north east south west language max_rows secure output_format =
     (case create_bare_end_point self secure ''cities'' output_format FNone of
        Inl e \<Rightarrow> Inl e
      | Inr (url, keys) \<Rightarrow>
          if \<not> (PNone \<notin> set [north, east, south, west]) then Inl AssertionError
          else
            (let keys = add_key_value keys ''north'' north;
                 keys = add_key_value keys ''east'' east;
                 keys = add_key_value keys ''south'' south;
                 keys = add_key_value keys ''west'' west;
                 keys = add_key_value keys ''lang'' language;
                 keys = add_key_value keys ''maxRows'' max_rows
             in Inr (url @ urlencode keys)))"

definition children ::
  "APIUrl \<Rightarrow> pyval \<Rightarrow> pyval \<Rightarrow> pyval \<Rightarrow> pyval \<Rightarrow> pyval \<Rightarrow> error + string" where
  "children self geoname_id hierarchy max_rows secure output_format =
     (case create_bare_end_point self secure ''children'' output_format FNone of
        Inl e \<Rightarrow> Inl e
      | Inr (url, keys) \<Rightarrow>
          if \<not> (truthy geoname_id) then Inl AssertionError
          else
            (let keys = add_key_value keys ''geonameId'' geoname_id;
                 keys = add_key_value keys ''hierarchy'' hierarchy;
                 keys = add_key_value keys ''maxRows'' max_rows
             in Inr (url @ urlencode keys)))"

definition neighbours ::
  "APIUrl \<Rightarrow> pyval \<Rightarrow> pyval \<Rightarrow> pyval \<Rightarrow> pyval \<Rightarrow> error + string" where
  "neighbours self geoname_id country secure output_format =
     (case create_bare_end_point self secure ''neighbours'' output_format FNone of
        Inl e \<Rightarrow> Inl e
      | Inr (url, keys) \<Rightarrow>
          if \<not> ((truthy geoname_id \<or> truthy country) \<and> \<not> (truthy geoname_id \<and> truthy country)) then Inl AssertionError
          else
            (let keys = add_key_value keys ''geonameId'' geoname_id;
                 keys = add_key_value keys ''country'' country
             in Inr (url @ urlencode keys)))"

definition hierarchy ::
  "APIUrl \<Rightarrow> pyval \<Rightarrow> pyval \<Rightarrow> pyval \<Rightarrow> error + string" where
  "hierarchy self geoname_id secure output_format =
     (case create_bare_end_point self secure ''hierarchy'' output_format FNone of
        Inl e \<Rightarrow> Inl e
      | Inr (url, keys) \<Rightarrow>
          if \<not> (truthy geoname_id) then Inl AssertionError
          else
            (let keys = add_key_value keys ''geonameId'' geoname_id
             in Inr (url @ urlencode keys)))"

definition siblings ::
  "APIUrl \<Rightarrow> pyval \<Rightarrow> pyval \<Rightarrow> pyval \<Rightarrow> error + string" where
  "siblings self geoname_id secure output_format =
     (case create_bare_end_point self secure ''siblings'' output_format FNone of
        Inl e \<Rightarrow> Inl e
      | Inr (url, keys) \<Rightarrow>
          if \<not> (truthy geoname_id) then Inl AssertionError
          else
            (let keys = add_key_value keys ''geonameId'' geoname_id
             in Inr (url @ urlencode keys)))"

definition postal_code_to_place_name ::
  "APIUrl \<Rightarrow> pyval \<Rightarrow> pyval \<Rightarrow> pyval \<Rightarrow> pyval \<Rightarrow> pyval \<Rightarrow> pyval \<Rightarrow> error + string" where
  "postal_code_to_place_name self postal_code country charset max_rows secure output_format =
     (case create_bare_end_point self secure ''postalCodeLookup'' output_format FNone of
        Inl e \<Rightarrow> Inl e
      | Inr (url, keys) \<Rightarrow>
          if \<not> (truthy postal_code) then Inl AssertionError
          else
            (let keys = add_key_value keys ''postalcode'' postal_code;
                 keys = add_key_value keys ''country'' country;
                 keys = add_key_value keys ''charset'' charset;
                 keys = add_key_value keys ''maxRows'' max_rows
             in Inr (url @ urlencode keys)))"

definition wikipedia_find_nearby ::
  "APIUrl \<Rightarrow> pyval \<Rightarrow> pyval \<Rightarrow> pyval \<Rightarrow> pyval \<Rightarrow> pyval \<Rightarrow> pyval \<Rightarrow> pyval \<Rightarrow> pyval \<Rightarrow> pyval \<Rightarrow> error + string" where
  "wikipedia_find_nearby self latitude longitude postal_code radius language max_rows country secure output_format =
     (case create_bare_end_point self secure ''findNearbyWikipedia'' output_format FNone of
        Inl e \<Rightarrow> Inl e
      | Inr (url, keys) \<Rightarrow>
          if \<not> (if postal_code = PNone then latitude \<noteq> PNone \<and> longitude \<noteq> PNone
                  else latitude = PNone \<or> longitude = PNone) then Inl AssertionError
          else
            (let keys = add_key_value keys ''lat'' latitude;
                 keys = add_key_value keys ''lng'' longitude;
                 keys = add_key_value keys ''postalcode'' postal_code;
                 keys = add_key_value keys ''radius'' radius;
                 keys = add_key_value keys ''lang'' language;
                 keys = add_key_value keys ''maxRows'' max_rows;
                 keys = add_key_value keys ''country'' country
             in Inr (url @ urlencode keys)))"

definition wikipedia_fulltext_search ::
  "APIUrl \<Rightarrow> pyval \<Rightarrow> pyval \<Rightarrow> pyval \<Rightarrow> pyval \<Rightarrow> pyval \<Rightarrow> pyval \<Rightarrow> error + string" where
  "wikipedia_fulltext_search self q title language max_rows secure output_format =
     (case create_bare_end_point self secure ''wikipediaSearch'' output_format FNone of
        Inl e \<Rightarrow> Inl e
      | Inr (url, keys) \<Rightarrow>
          if \<not> (truthy q) then Inl AssertionError
          else
            (let keys = add_key_value keys ''q'' q;
                 keys = add_key_value keys ''title'' title;
                 keys = add_key_value keys ''lang'' language;
                 keys = add_key_value keys ''maxRows'' max_rows
             in Inr (url @ urlencode keys)))"

definition wikipedia_bounding_box ::
  "APIUrl \<Rightarrow> pyval \<Rightarrow> pyval \<Rightarrow> pyval \<Rightarrow> pyval \<Rightarrow> pyval \<Rightarrow> pyval \<Rightarrow> pyval \<Rightarrow> pyval \<Rightarrow> error + string" where
  "wikipedia_bounding_box self north east south west language max_rows secure output_format =
     (case create_bare_end_point self secure ''wikipediaBoundingBox'' output_format FNone of
        Inl e \<Rightarrow> Inl e
      | Inr (url, keys) \<Rightarrow>
          if \<not> (truthy north \<and> truthy east \<and> truthy south \<and> truthy west) then Inl AssertionError
          else
            (let keys = add_key_value keys ''north'' north;
                 keys = add_key_value keys ''east'' east;
                 keys = add_key_value keys ''south'' south;
                 keys = add_key_value keys ''west'' west;
                 keys = add_key_value keys ''lang'' language;
                 keys = add_key_value keys ''maxRows'' max_rows
             in Inr (url @ urlencode keys)))"

definition earthquakes_bounding_box ::
  "APIUrl \<Rightarrow> pyval \<Rightarrow> pyval \<Rightarrow> pyval \<Rightarrow> pyval \<Rightarrow> pyval \<Rightarrow> pyval \<Rightarrow> pyval \<Rightarrow> pyval \<Rightarrow> pyval \<Rightarrow> error + string" where
  "earthquakes_bounding_box self north east south west up_to_date min_magnitude max_rows secure output_format =
     (case create_bare_end_point self secure ''earthquakes'' output_format FNone of
        Inl e \<Rightarrow> Inl e
      | Inr (url, keys) \<Rightarrow>
          if \<not> (truthy north \<and> truthy east \<and> truthy south \<and> truthy west) then Inl AssertionError
          else
            (let keys = add_key_value keys ''north'' north;
                 keys = add_key_value keys ''east'' east;
                 keys = add_key_value keys ''south'' south;
                 keys = add_key_value keys ''west'' west;
                 keys = add_key_value keys ''minMagnitude'' min_magnitude;
                 keys = add_key_value keys ''maxRows'' max_rows;
                 keys = add_date self keys up_to_date ''date''
             in Inr (url @ urlencode keys)))"

definition weather_station_bounding_box ::
  "APIUrl \<Rightarrow> pyval \<Rightarrow> pyval \<Rightarrow> pyval \<Rightarrow> pyval \<Rightarrow> pyval \<Rightarrow> pyval \<Rightarrow> pyval \<Rightarrow> error + string" where
  "weather_station_bounding_box self north east south west max_rows secure output_format =
     (case create_bare_end_point self secure ''weather'' output_format FNone of
        Inl e \<Rightarrow> Inl e
      | Inr (url, keys) \<Rightarrow>
          if \<not> (truthy north \<and> truthy east \<and> truthy south \<and> truthy west) then Inl AssertionError
          else
            (let keys = add_key_value keys ''north'' north;
                 keys = add_key_value keys ''east'' east;
                 keys = add_key_value keys ''south'' south;
                 keys = add_key_value keys ''west'' west;
                 keys = add_key_value keys ''maxRows'' max_rows
             in Inr (url @ urlencode keys)))"

definition weather_station_icao ::
  "APIUrl \<Rightarrow> pyval \<Rightarrow> pyval \<Rightarrow> pyval \<Rightarrow> error + string" where
  "weather_station_icao self icao secure output_format =
     (case create_bare_end_point self secure ''weatherIcao'' output_format FNone of
        Inl e \<Rightarrow> Inl e
      | Inr (url, keys) \<Rightarrow>
          if \<not> (truthy icao) then Inl AssertionError
          else
            (let keys = add_key_value keys ''ICAO'' icao
             in Inr (url @ urlencode keys)))"

definition weather_station_find_nearby ::
  "APIUrl \<Rightarrow> pyval \<Rightarrow> pyval \<Rightarrow> pyval \<Rightarrow> pyval \<Rightarrow> pyval \<Rightarrow> error + string" where
  "weather_station_find_nearby self latitude longitude radius secure output_format =
     (case create_bare_end_point self secure ''findNearByWeather'' output_format FNone of
        Inl e \<Rightarrow> Inl e
      | Inr (url, keys) \<Rightarrow>
          if \<not> (truthy latitude \<or> truthy longitude) then Inl AssertionError
          else
            (let keys = add_key_value keys ''lat'' latitude;
                 keys = add_key_value keys ''lng'' longitude;
                 keys = add_key_value keys ''radius'' radius
             in Inr (url @ urlencode keys)))"

definition country_info ::
  "APIUrl \<Rightarrow> pyarg \<Rightarrow> pyval \<Rightarrow> pyval \<Rightarrow> pyval \<Rightarrow> error + string" where
  "country_info self country language secure output_format =
     (case create_bare_end_point self secure ''countryInfo'' output_format (FStr ''CSV'') of
        Inl e \<Rightarrow> Inl e
      | Inr (url, keys) \<Rightarrow>
          (case add_iterable keys ''country'' country of
             Inl e \<Rightarrow> Inl e
           | Inr keys \<Rightarrow>
               (let keys = add_key_value keys ''lang'' language
                in Inr (url @ urlencode keys))))"

definition ocean ::
  "APIUrl \<Rightarrow> pyval \<Rightarrow> pyval \<Rightarrow> pyval \<Rightarrow> pyval \<Rightarrow> pyval \<Rightarrow> error + string" where
  "ocean self latitude longitude radius secure output_format =
     (case create_bare_end_point self secure ''ocean'' output_format FNone of
        Inl e \<Rightarrow> Inl e
      | Inr (url, keys) \<Rightarrow>
          if \<not> (truthy latitude \<or> truthy longitude) then Inl AssertionError
          else
            (let keys = add_key_value keys ''lat'' latitude;
                 keys = add_key_value keys ''lng'' longitude;
                 keys = add_key_value keys ''radius'' radius
             in Inr (url @ urlencode keys)))"

definition timezone ::
  "APIUrl \<Rightarrow> pyval \<Rightarrow> pyval \<Rightarrow> pyval \<Rightarrow> pyval \<Rightarrow> pyval \<Rightarrow> pyval \<Rightarrow> pyval \<Rightarrow> error + string" where
  "timezone self latitude longitude radius language sunrise_sunset_date secure output_format =
     (case create_bare_end_point self secure ''timezone'' output_format FNone of
        Inl e \<Rightarrow> Inl e
      | Inr (url, keys) \<Rightarrow>
          if \<not> (truthy latitude \<or> truthy longitude) then Inl AssertionError
          else
            (let keys = add_key_value keys ''lat'' latitude;
                 keys = add_key_value keys ''lng'' longitude;
                 keys = add_key_value keys ''radius'' radius;
                 keys = add_key_value keys ''lang'' language;
                 keys = add_date self keys sunrise_sunset_date ''date''
             in Inr (url @ urlencode keys)))"


section \<open>The methods as computations on the interpreter's state\<close>

text \<open>
  A call runs in a state: the object \<open>self\<close>, whose attributes a method body may read and
  assign, and everything else the interpreter holds and a body could read (the clock, a
  random generator, module globals, the environment), the world \<open>'w\<close>. A computation takes
  the state and gives its outcome, the value returned or the exception raised, and the
  state it leaves. The statements of the source are translated by the combinators below:
  \<open>seq\<close> runs one computation after another and stops at an exception, \<open>ret\<close> returns,
  \<open>throw\<close> raises, \<open>self_attr\<close> reads an attribute of \<open>self\<close>, \<open>set_self\<close> is an
  assignment to an attribute, and \<open>from_world\<close> reads the world. The functions of the
  sections before, which take \<open>self\<close> as an argument, give the outcome alone; that the two
  translations agree is proved below (\<open>call_m_eq\<close>).
\<close>

type_synonym 'w state = "'w \<times> APIUrl"

type_synonym ('w, 'a) comp = "'w state \<Rightarrow> (error + 'a) \<times> 'w state"

definition ret :: "'a \<Rightarrow> ('w, 'a) comp" where
  "ret x = (\<lambda>s. (Inr x, s))"

definition throw :: "error \<Rightarrow> ('w, 'a) comp" where
  "throw e = (\<lambda>s. (Inl e, s))"

definition seq :: "('w, 'a) comp \<Rightarrow> ('a \<Rightarrow> ('w, 'b) comp) \<Rightarrow> ('w, 'b) comp" where
  "seq m f = (\<lambda>s. case m s of (Inl e, s') \<Rightarrow> (Inl e, s') | (Inr x, s') \<Rightarrow> f x s')"

definition self_attr :: "(APIUrl \<Rightarrow> 'a) \<Rightarrow> ('w, 'a) comp" where
  "self_attr f = (\<lambda>s. (Inr (f (snd s)), s))"

definition set_self :: "(APIUrl \<Rightarrow> APIUrl) \<Rightarrow> ('w, unit) comp" where
  "set_self f = (\<lambda>s. (Inr (), (fst s, f (snd s))))"

definition from_world :: "('w \<Rightarrow> 'a) \<Rightarrow> ('w, 'a) comp" where
  "from_world g = (\<lambda>s. (Inr (g (fst s)), s))"

definition py_assert :: "bool \<Rightarrow> ('w, unit) comp" where
  "py_assert b = (if b then ret () else throw AssertionError)"

text \<open>The outcome of a block that has no access to the state.\<close>

definition lift :: "error + 'a \<Rightarrow> ('w, 'a) comp" where
  "lift r = (case r of Inl e \<Rightarrow> throw e | Inr x \<Rightarrow> ret x)"


text \<open>
  \<open>_create_bare_end_point\<close> reads \<open>self._base_url\<close> when \<open>secure\<close> is false,
  \<open>self.default_output_format\<close> when \<open>output_format\<close> is false, and \<open>self.username\<close>.
\<close>

definition create_bare_end_point_m ::
  "pyval \<Rightarrow> string \<Rightarrow> pyval \<Rightarrow> formats \<Rightarrow> ('w, string \<times> keys) comp" where
  "create_bare_end_point_m secure end_point output_format additional_output_formats =
     seq (if truthy secure then ret (create_base_url secure) else self_attr base_url) (\<lambda>base.
     seq (let url = base @ end_point
          in if truthy output_format then
               (case output_format of
                  PStr fmt \<Rightarrow>
                    (let url = (if upper fmt = ''JSON'' then url @ ''JSON'' else url);
                         additional =
                           (case additional_output_formats of
                              FNone \<Rightarrow> None
                            | FStr f \<Rightarrow> Some (map upper [f])
                            | FList fs \<Rightarrow> Some (map upper fs))
                     in if upper fmt = ''CSV'' then
                          (case additional of
                             None \<Rightarrow> throw TypeError
                           | Some fs \<Rightarrow> ret (if upper fmt \<in> set fs then url @ ''CSV'' else url))
                        else ret url)
                | _ \<Rightarrow> throw AttributeError)
             else
               seq (self_attr default_output_format) (\<lambda>default_format.
               ret (if default_format = ''JSON'' then url @ ''JSON'' else url))) (\<lambda>url.
     seq (self_attr username) (\<lambda>uname.
     ret (url @ ''?'', [(''username'', uname)]))))"

text \<open>\<open>_add_date\<close> is a method of the object, and reads no attribute of it.\<close>

definition add_date_m :: "keys \<Rightarrow> pyval \<Rightarrow> string \<Rightarrow> ('w, keys) comp" where
  "add_date_m keys date_to_add key =
     (let date_to_add =
            (case date_to_add of
               PDate y m d \<Rightarrow> PStr (strftime_ymd y m d)
             | _ \<Rightarrow> date_to_add)
      in ret (add_key_value keys key date_to_add))"

definition cities_and_place_names_bounding_box_m ::
  "pyval \<Rightarrow> pyval \<Rightarrow> pyval \<Rightarrow> pyval \<Rightarrow> pyval \<Rightarrow> pyval \<Rightarrow> pyval \<Rightarrow> pyval \<Rightarrow> ('w, string) comp" where
  "cities_and_place_names_bounding_box_m north east south west language max_rows secure output_format =
     seq (create_bare_end_point_m secure ''cities'' output_format FNone) (\<lambda>(url, keys).
     seq (py_assert (PNone \<notin> set [north, east, south, west])) (\<lambda>_.
       (let keys = add_key_value keys ''north'' north;
            keys = add_key_value keys ''east'' east;
            keys = add_key_value keys ''south'' south;
            keys = add_key_value keys ''west'' west;
            keys = add_key_value keys ''lang'' language;
            keys = add_key_value keys ''maxRows'' max_rows
        in ret (url @ urlencode keys))))"

definition children_m ::
  "pyval \<Rightarrow> pyval \<Rightarrow> pyval \<Rightarrow> pyval \<Rightarrow> pyval \<Rightarrow> ('w, string) comp" where
  "children_m geoname_id hierarchy' max_rows secure output_format =
     seq (create_bare_end_point_m secure ''children'' output_format FNone) (\<lambda>(url, keys).
     seq (py_assert (truthy geoname_id)) (\<lambda>_.
       (let keys = add_key_value keys ''geonameId'' geoname_id;
            keys = add_key_value keys ''hierarchy'' hierarchy';
            keys = add_key_value keys ''maxRows'' max_rows
        in ret (url @ urlencode keys))))"

definition neighbours_m ::
  "pyval \<Rightarrow> pyval \<Rightarrow> pyval \<Rightarrow> pyval \<Rightarrow> ('w, string) comp" where
  "neighbours_m geoname_id country secure output_format =
     seq (create_bare_end_point_m secure ''neighbours'' output_format FNone) (\<lambda>(url, keys).
     seq (py_assert ((truthy geoname_id \<or> truthy country) \<and> \<not> (truthy geoname_id \<and> truthy country))) (\<lambda>_.
       (let keys = add_key_value keys ''geonameId'' geoname_id;
            keys = add_key_value keys ''country'' country
        in ret (url @ urlencode keys))))"

definition hierarchy_m ::
  "pyval \<Rightarrow> pyval \<Rightarrow> pyval \<Rightarrow> ('w, string) comp" where
  "hierarchy_m geoname_id secure output_format =
     seq (create_bare_end_point_m secure ''hierarchy'' output_format FNone) (\<lambda>(url, keys).
     seq (py_assert (truthy geoname_id)) (\<lambda>_.
       (let keys = add_key_value keys ''geonameId'' geoname_id
        in ret (url @ urlencode keys))))"

definition siblings_m ::
  "pyval \<Rightarrow> pyval \<Rightarrow> pyval \<Rightarrow> ('w, string) comp" where
  "siblings_m geoname_id secure output_format =
     seq (create_bare_end_point_m secure ''siblings'' output_format FNone) (\<lambda>(url, keys).
     seq (py_assert (truthy geoname_id)) (\<lambda>_.
       (let keys = add_key_value keys ''geonameId'' geoname_id
        in ret (url @ urlencode keys))))"

definition postal_code_to_place_name_m ::
  "pyval \<Rightarrow> pyval \<Rightarrow> pyval \<Rightarrow> pyval \<Rightarrow> pyval \<Rightarrow> pyval \<Rightarrow> ('w, string) comp" where
  "postal_code_to_place_name_m postal_code country charset max_rows secure output_format =
     seq (create_bare_end_point_m secure ''postalCodeLookup'' output_format FNone) (\<lambda>(url, keys).
     seq (py_assert (truthy postal_code)) (\<lambda>_.
       (let keys = add_key_value keys ''postalcode'' postal_code;
            keys = add_key_value keys ''country'' country;
            keys = add_key_value keys ''charset'' charset;
            keys = add_key_value keys ''maxRows'' max_rows
        in ret (url @ urlencode keys))))"

definition wikipedia_find_nearby_m ::
  "pyval \<Rightarrow> pyval \<Rightarrow> pyval \<Rightarrow> pyval \<Rightarrow> pyval \<Rightarrow> pyval \<Rightarrow> pyval \<Rightarrow> pyval \<Rightarrow> pyval \<Rightarrow> ('w, string) comp" where
  "wikipedia_find_nearby_m latitude longitude postal_code radius language max_rows country secure output_format =
     seq (create_bare_end_point_m secure ''findNearbyWikipedia'' output_format FNone) (\<lambda>(url, keys).
     seq (py_assert (if postal_code = PNone then latitude \<noteq> PNone \<and> longitude \<noteq> PNone
                     else latitude = PNone \<or> longitude = PNone)) (\<lambda>_.
       (let keys = add_key_value keys ''lat'' latitude;
            keys = add_key_value keys ''lng'' longitude;
            keys = add_key_value keys ''postalcode'' postal_code;
            keys = add_key_value keys ''radius'' radius;
            keys = add_key_value keys ''lang'' language;
            keys = add_key_value keys ''maxRows'' max_rows;
            keys = add_key_value keys ''country'' country
        in ret (url @ urlencode keys))))"

definition wikipedia_fulltext_search_m ::
  "pyval \<Rightarrow> pyval \<Rightarrow> pyval \<Rightarrow> pyval \<Rightarrow> pyval \<Rightarrow> pyval \<Rightarrow> ('w, string) comp" where
  "wikipedia_fulltext_search_m q title language max_rows secure output_format =
     seq (create_bare_end_point_m secure ''wikipediaSearch'' output_format FNone) (\<lambda>(url, keys).
     seq (py_assert (truthy q)) (\<lambda>_.
       (let keys = add_key_value keys ''q'' q;
            keys = add_key_value keys ''title'' title;
            keys = add_key_value keys ''lang'' language;
            keys = add_key_value keys ''maxRows'' max_rows
        in ret (url @ urlencode keys))))"

definition wikipedia_bounding_box_m ::
  "pyval \<Rightarrow> pyval \<Rightarrow> pyval \<Rightarrow> pyval \<Rightarrow> pyval \<Rightarrow> pyval \<Rightarrow> pyval \<Rightarrow> pyval \<Rightarrow> ('w, string) comp" where
  "wikipedia_bounding_box_m north east south west language max_rows secure output_format =
     seq (create_bare_end_point_m secure ''wikipediaBoundingBox'' output_format FNone) (\<lambda>(url, keys).
     seq (py_assert (truthy north \<and> truthy east \<and> truthy south \<and> truthy west)) (\<lambda>_.
       (let keys = add_key_value keys ''north'' north;
            keys = add_key_value keys ''east'' east;
            keys = add_key_value keys ''south'' south;
            keys = add_key_value keys ''west'' west;
            keys = add_key_value keys ''lang'' language;
            keys = add_key_value keys ''maxRows'' max_rows
        in ret (url @ urlencode keys))))"

definition earthquakes_bounding_box_m ::
  "pyval \<Rightarrow> pyval \<Rightarrow> pyval \<Rightarrow> pyval \<Rightarrow> pyval \<Rightarrow> pyval \<Rightarrow> pyval \<Rightarrow> pyval \<Rightarrow> pyval \<Rightarrow> ('w, string) comp" where
  "earthquakes_bounding_box_m north east south west up_to_date min_magnitude max_rows secure output_format =
     seq (create_bare_end_point_m secure ''earthquakes'' output_format FNone) (\<lambda>(url, keys).
     seq (py_assert (truthy north \<and> truthy east \<and> truthy south \<and> truthy west)) (\<lambda>_.
       (let keys = add_key_value keys ''north'' north;
            keys = add_key_value keys ''east'' east;
            keys = add_key_value keys ''south'' south;
            keys = add_key_value keys ''west'' west;
            keys = add_key_value keys ''minMagnitude'' min_magnitude;
            keys = add_key_value keys ''maxRows'' max_rows
        in seq (add_date_m keys up_to_date ''date'') (\<lambda>keys.
           ret (url @ urlencode keys)))))"

definition weather_station_bounding_box_m ::
  "pyval \<Rightarrow> pyval \<Rightarrow> pyval \<Rightarrow> pyval \<Rightarrow> pyval \<Rightarrow> pyval \<Rightarrow> pyval \<Rightarrow> ('w, string) comp" where
  "weather_station_bounding_box_m north east south west max_rows secure output_format =
     seq (create_bare_end_point_m secure ''weather'' output_format FNone) (\<lambda>(url, keys).
     seq (py_assert (truthy north \<and> truthy east \<and> truthy south \<and> truthy west)) (\<lambda>_.
       (let keys = add_key_value keys ''north'' north;
            keys = add_key_value keys ''east'' east;
            keys = add_key_value keys ''south'' south;
            keys = add_key_value keys ''west'' west;
            keys = add_key_value keys ''maxRows'' max_rows
        in ret (url @ urlencode keys))))"

definition weather_station_icao_m ::
  "pyval \<Rightarrow> pyval \<Rightarrow> pyval \<Rightarrow> ('w, string) comp" where
  "weather_station_icao_m icao secure output_format =
     seq (create_bare_end_point_m secure ''weatherIcao'' output_format FNone) (\<lambda>(url, keys).
     seq (py_assert (truthy icao)) (\<lambda>_.
       (let keys = add_key_value keys ''ICAO'' icao
        in ret (url @ urlencode keys))))"

definition weather_station_find_nearby_m ::
  "pyval \<Rightarrow> pyval \<Rightarrow> pyval \<Rightarrow> pyval \<Rightarrow> pyval \<Rightarrow> ('w, string) comp" where
  "weather_station_find_nearby_m latitude longitude radius secure output_format =
     seq (create_bare_end_point_m secure ''findNearByWeather'' output_format FNone) (\<lambda>(url, keys).
     seq (py_assert (truthy latitude \<or> truthy longitude)) (\<lambda>_.
       (let keys = add_key_value keys ''lat'' latitude;
            keys = add_key_value keys ''lng'' longitude;
            keys = add_key_value keys ''radius'' radius
        in ret (url @ urlencode keys))))"

definition ocean_m ::
  "pyval \<Rightarrow> pyval \<Rightarrow> pyval \<Rightarrow> pyval \<Rightarrow> pyval \<Rightarrow> ('w, string) comp" where
  "ocean_m latitude longitude radius secure output_format =
     seq (create_bare_end_point_m secure ''ocean'' output_format FNone) (\<lambda>(url, keys).
     seq (py_assert (truthy latitude \<or> truthy longitude)) (\<lambda>_.
       (let keys = add_key_value keys ''lat'' latitude;
            keys = add_key_value keys ''lng'' longitude;
            keys = add_key_value keys ''radius'' radius
        in ret (url @ urlencode keys))))"

definition timezone_m ::
  "pyval \<Rightarrow> pyval \<Rightarrow> pyval \<Rightarrow> pyval \<Rightarrow> pyval \<Rightarrow> pyval \<Rightarrow> pyval \<Rightarrow> ('w, string) comp" where
  "timezone_m latitude longitude radius language sunrise_sunset_date secure output_format =
     seq (create_bare_end_point_m secure ''timezone'' output_format FNone) (\<lambda>(url, keys).
     seq (py_assert (truthy latitude \<or> truthy longitude)) (\<lambda>_.
       (let keys = add_key_value keys ''lat'' latitude;
            keys = add_key_value keys ''lng'' longitude;
            keys = add_key_value keys ''radius'' radius;
            keys = add_key_value keys ''lang'' language
        in seq (add_date_m keys sunrise_sunset_date ''date'') (\<lambda>keys.
           ret (url @ urlencode keys)))))"

definition country_info_m ::
  "pyarg \<Rightarrow> pyval \<Rightarrow> pyval \<Rightarrow> pyval \<Rightarrow> ('w, string) comp" where
  "country_info_m country language secure output_format =
     seq (create_bare_end_point_m secure ''countryInfo'' output_format (FStr ''CSV'')) (\<lambda>(url, keys).
     seq (lift (add_iterable keys ''country'' country)) (\<lambda>keys.
       (let keys = add_key_value keys ''lang'' language
        in ret (url @ urlencode keys))))"

section \<open>The method \<open>search\<close>\<close>

text \<open>
  \<open>search\<close> has thirty-one keyword parameters, all with the default \<open>None\<close>;
  \<open>search_defaults\<close> is the call with no argument given.
\<close>

record search_args =
  q :: pyval
  name :: pyval
  name_equals :: pyval
  name_starts_with :: pyval
  max_rows :: pyval
  start_row :: pyval
  country :: pyarg
  country_bias :: pyval
  continent_code :: pyval
  admin_code1 :: pyval
  admin_code2 :: pyval
  admin_code3 :: pyval
  feature_class :: pyarg
  feature_code :: pyarg
  cities :: pyval
  language :: pyval
  style :: pyval
  is_name_required :: pyval
  tag :: pyval
  operator :: pyval
  charset :: pyval
  fuzzy :: pyval
  north :: pyval
  east :: pyval
  south :: pyval
  west :: pyval
  search_language :: pyval
  order_by :: pyval
  include_bbox :: pyval
  secure :: pyval
  output_format :: pyval

definition search_defaults :: search_args where
  "search_defaults =
     \<lparr>q = PNone,
      name = PNone,
      name_equals = PNone,
      name_starts_with = PNone,
      max_rows = PNone,
      start_row = PNone,
      country = Val PNone,
      country_bias = PNone,
      continent_code = PNone,
      admin_code1 = PNone,
      admin_code2 = PNone,
      admin_code3 = PNone,
      feature_class = Val PNone,
      feature_code = Val PNone,
      cities = PNone,
      language = PNone,
      style = PNone,
      is_name_required = PNone,
      tag = PNone,
      operator = PNone,
      charset = PNone,
      fuzzy = PNone,
      north = PNone,
      east = PNone,
      south = PNone,
      west = PNone,
      search_language = PNone,
      order_by = PNone,
      include_bbox = PNone,
      secure = PNone,
      output_format = PNone\<rparr>"

text \<open>
  \<open>search\<close> checks its assertion first and builds the URL itself; it adds the four
  bounding-box edges only when none of them is \<open>None\<close>, and always adds \<open>type\<close>, with
  the default format of the configuration when \<open>output_format\<close> is \<open>None\<close>.
\<close>

definition search :: "APIUrl \<Rightarrow> search_args \<Rightarrow> error + string" where
  "search self a =
     (if \<not> (truthy (q a) \<or> truthy (name a) \<or> truthy (name_equals a)) then Inl AssertionError
      else
        (let url = (if truthy (secure a) then create_base_url (secure a) else base_url self)
                     @ ''search?'';
             keys = [(''username'', username self)];
             keys = add_key_value keys ''q'' (q a);
             keys = add_key_value keys ''name'' (name a);
             keys = add_key_value keys ''name_equals'' (name_equals a);
             keys = add_key_value keys ''name_startsWith'' (name_starts_with a);
             keys = add_key_value keys ''maxRows'' (max_rows a);
             keys = add_key_value keys ''startRow'' (start_row a)
         in case add_iterable keys ''country'' (country a) of
              Inl e \<Rightarrow> Inl e
            | Inr keys \<Rightarrow>
         (let keys = add_key_value keys ''countryBias'' (country_bias a);
              keys = add_key_value keys ''continentCode'' (continent_code a);
              keys = add_key_value keys ''adminCode1'' (admin_code1 a);
              keys = add_key_value keys ''adminCode2'' (admin_code2 a);
              keys = add_key_value keys ''adminCode3'' (admin_code3 a)
          in case add_iterable keys ''featureClass'' (feature_class a) of
               Inl e \<Rightarrow> Inl e
             | Inr keys \<Rightarrow>
          (case add_iterable keys ''featureCode'' (feature_code a) of
               Inl e \<Rightarrow> Inl e
             | Inr keys \<Rightarrow>
          (let keys = add_key_value keys ''cities'' (cities a);
               keys = add_key_value keys ''lang'' (language a);
               keys = add_key_value keys ''style'' (style a);
               keys = add_key_value keys ''isNameRequired'' (is_name_required a);
               keys = add_key_value keys ''tag'' (tag a);
               keys = add_key_value keys ''operator'' (operator a);
               keys = add_key_value keys ''charset'' (charset a);
               keys = add_key_value keys ''fuzzy'' (fuzzy a);
               keys = (if PNone \<notin> set [north a, east a, south a, west a]
                       then (let keys = add_key_value keys ''north'' (north a);
                                 keys = add_key_value keys ''east'' (east a);
                                 keys = add_key_value keys ''south'' (south a);
                                 keys = add_key_value keys ''west'' (west a)
                             in keys)
                       else keys);
               keys = add_key_value keys ''searchlang'' (search_language a);
               keys = add_key_value keys ''orderby'' (order_by a);
               keys = add_key_value keys ''inclBbox'' (include_bbox a);
               fmt = (if output_format a = PNone then PStr (default_output_format self)
                      else output_format a);
               keys = add_key_value keys ''type'' fmt
           in Inr (url @ urlencode keys))))))"

text \<open>\<open>search\<close> as a computation: it reads the three attributes of \<open>self\<close>.\<close>

definition search_m :: "search_args \<Rightarrow> ('w, string) comp" where
  "search_m a =
     seq (py_assert (truthy (q a) \<or> truthy (name a) \<or> truthy (name_equals a))) (\<lambda>_.
     seq (if truthy (secure a) then ret (create_base_url (secure a)) else self_attr base_url) (\<lambda>base.
     seq (self_attr username) (\<lambda>uname.
       (let url = base @ ''search?'';
            keys = [(''username'', uname)];
            keys = add_key_value keys ''q'' (q a);
            keys = add_key_value keys ''name'' (name a);
            keys = add_key_value keys ''name_equals'' (name_equals a);
            keys = add_key_value keys ''name_startsWith'' (name_starts_with a);
            keys = add_key_value keys ''maxRows'' (max_rows a);
            keys = add_key_value keys ''startRow'' (start_row a)
        in seq (lift (add_iterable keys ''country'' (country a))) (\<lambda>keys.
       (let keys = add_key_value keys ''countryBias'' (country_bias a);
            keys = add_key_value keys ''continentCode'' (continent_code a);
            keys = add_key_value keys ''adminCode1'' (admin_code1 a);
            keys = add_key_value keys ''adminCode2'' (admin_code2 a);
            keys = add_key_value keys ''adminCode3'' (admin_code3 a)
        in seq (lift (add_iterable keys ''featureClass'' (feature_class a))) (\<lambda>keys.
           seq (lift (add_iterable keys ''featureCode'' (feature_code a))) (\<lambda>keys.
       (let keys = add_key_value keys ''cities'' (cities a);
            keys = add_key_value keys ''lang'' (language a);
            keys = add_key_value keys ''style'' (style a);
            keys = add_key_value keys ''isNameRequired'' (is_name_required a);
            keys = add_key_value keys ''tag'' (tag a);
            keys = add_key_value keys ''operator'' (operator a);
            keys = add_key_value keys ''charset'' (charset a);
            keys = add_key_value keys ''fuzzy'' (fuzzy a);
            keys = (if PNone \<notin> set [north a, east a, south a, west a]
                    then (let keys = add_key_value keys ''north'' (north a);
                              keys = add_key_value keys ''east'' (east a);
                              keys = add_key_value keys ''south'' (south a);
                              keys = add_key_value keys ''west'' (west a)
                          in keys)
                    else keys);
            keys = add_key_value keys ''searchlang'' (search_language a);
            keys = add_key_value keys ''orderby'' (order_by a);
            keys = add_key_value keys ''inclBbox'' (include_bbox a)
        in seq (if output_format a = PNone
                then seq (self_attr default_output_format) (\<lambda>default_format.
                     ret (PStr default_format))
                else ret (output_format a)) (\<lambda>fmt.
           (let keys = add_key_value keys ''type'' fmt
            in ret (url @ urlencode keys))))))))))))"

section \<open>Calls on a configuration\<close>

text \<open>One constructor for each endpoint method, with the arguments in the order of its signature.\<close>

datatype call =
    Search search_args
  | Cities_and_place_names_bounding_box pyval pyval pyval pyval pyval pyval pyval pyval
  | Children pyval pyval pyval pyval pyval
  | Neighbours pyval pyval pyval pyval
  | Hierarchy pyval pyval pyval
  | Siblings pyval pyval pyval
  | Postal_code_to_place_name pyval pyval pyval pyval pyval pyval
  | Wikipedia_find_nearby pyval pyval pyval pyval pyval pyval pyval pyval pyval
  | Wikipedia_fulltext_search pyval pyval pyval pyval pyval pyval
  | Wikipedia_bounding_box pyval pyval pyval pyval pyval pyval pyval pyval
  | Earthquakes_bounding_box pyval pyval pyval pyval pyval pyval pyval pyval pyval
  | Weather_station_bounding_box pyval pyval pyval pyval pyval pyval pyval
  | Weather_station_icao pyval pyval pyval
  | Weather_station_find_nearby pyval pyval pyval pyval pyval
  | Country_info pyarg pyval pyval pyval
  | Ocean pyval pyval pyval pyval pyval
  | Timezone pyval pyval pyval pyval pyval pyval pyval

fun run :: "APIUrl \<Rightarrow> call \<Rightarrow> error + string" where
  "run self (Search a) = search self a"
| "run self (Cities_and_place_names_bounding_box a b c d e f g h) = cities_and_place_names_bounding_box self a b c d e f g h"
| "run self (Children a b c d e) = children self a b c d e"
| "run self (Neighbours a b c d) = neighbours self a b c d"
| "run self (Hierarchy a b c) = hierarchy self a b c"
| "run self (Siblings a b c) = siblings self a b c"
| "run self (Postal_code_to_place_name a b c d e f) = postal_code_to_place_name self a b c d e f"
| "run self (Wikipedia_find_nearby a b c d e f g h i) = wikipedia_find_nearby self a b c d e f g h i"
| "run self (Wikipedia_fulltext_search a b c d e f) = wikipedia_fulltext_search self a b c d e f"
| "run self (Wikipedia_bounding_box a b c d e f g h) = wikipedia_bounding_box self a b c d e f g h"
| "run self (Earthquakes_bounding_box a b c d e f g h i) = earthquakes_bounding_box self a b c d e f g h i"
| "run self (Weather_station_bounding_box a b c d e f g) = weather_station_bounding_box self a b c d e f g"
| "run self (Weather_station_icao a b c) = weather_station_icao self a b c"
| "run self (Weather_station_find_nearby a b c d e) = weather_station_find_nearby self a b c d e"
| "run self (Country_info a b c d) = country_info self a b c d"
| "run self (Ocean a b c d e) = ocean self a b c d e"
| "run self (Timezone a b c d e f g) = timezone self a b c d e f g"

text \<open>A call of an endpoint method, as a computation.\<close>

fun call_m :: "call \<Rightarrow> ('w, string) comp" where
  "call_m (Search a) = search_m a"
| "call_m (Cities_and_place_names_bounding_box a b c d e f g h) = cities_and_place_names_bounding_box_m a b c d e f g h"
| "call_m (Children a b c d e) = children_m a b c d e"
| "call_m (Neighbours a b c d) = neighbours_m a b c d"
| "call_m (Hierarchy a b c) = hierarchy_m a b c"
| "call_m (Siblings a b c) = siblings_m a b c"
| "call_m (Postal_code_to_place_name a b c d e f) = postal_code_to_place_name_m a b c d e f"
| "call_m (Wikipedia_find_nearby a b c d e f g h i) = wikipedia_find_nearby_m a b c d e f g h i"
| "call_m (Wikipedia_fulltext_search a b c d e f) = wikipedia_fulltext_search_m a b c d e f"
| "call_m (Wikipedia_bounding_box a b c d e f g h) = wikipedia_bounding_box_m a b c d e f g h"
| "call_m (Earthquakes_bounding_box a b c d e f g h i) = earthquakes_bounding_box_m a b c d e f g h i"
| "call_m (Weather_station_bounding_box a b c d e f g) = weather_station_bounding_box_m a b c d e f g"
| "call_m (Weather_station_icao a b c) = weather_station_icao_m a b c"
| "call_m (Weather_station_find_nearby a b c d e) = weather_station_find_nearby_m a b c d e"
| "call_m (Country_info a b c d) = country_info_m a b c d"
| "call_m (Ocean a b c d e) = ocean_m a b c d e"
| "call_m (Timezone a b c d e f g) = timezone_m a b c d e f g"

text \<open>The \<open>secure\<close> argument of a call.\<close>

fun call_secure :: "call \<Rightarrow> pyval" where
  "call_secure (Search a) = secure a"
| "call_secure (Cities_and_place_names_bounding_box a b c d e f g h) = g"
| "call_secure (Children a b c d e) = d"
| "call_secure (Neighbours a b c d) = c"
| "call_secure (Hierarchy a b c) = b"
| "call_secure (Siblings a b c) = b"
| "call_secure (Postal_code_to_place_name a b c d e f) = e"
| "call_secure (Wikipedia_find_nearby a b c d e f g h i) = h"
| "call_secure (Wikipedia_fulltext_search a b c d e f) = e"
| "call_secure (Wikipedia_bounding_box a b c d e f g h) = g"
| "call_secure (Earthquakes_bounding_box a b c d e f g h i) = h"
| "call_secure (Weather_station_bounding_box a b c d e f g) = f"
| "call_secure (Weather_station_icao a b c) = b"
| "call_secure (Weather_station_find_nearby a b c d e) = d"
| "call_secure (Country_info a b c d) = c"
| "call_secure (Ocean a b c d e) = d"
| "call_secure (Timezone a b c d e f g) = f"

section \<open>Reading a URL\<close>

text \<open>
  The query string of a URL is what follows its first \<open>?\<close>. Its key-value pairs are
  separated by \<open>&\<close>, and a pair is split at its first \<open>=\<close>; keys and values are read
  as they stand in the URL, percent-encoded.
\<close>

definition url_query :: "string \<Rightarrow> string" where
  "url_query url = drop 1 (dropWhile (\<lambda>c. c \<noteq> CHR ''?'') url)"

fun split_on :: "char \<Rightarrow> string \<Rightarrow> string list" where
  "split_on sep [] = [[]]"
| "split_on sep (c # cs) =
     (if c = sep then [] # split_on sep cs
      else (case split_on sep cs of
              [] \<Rightarrow> [[c]]
            | w # ws \<Rightarrow> (c # w) # ws))"

definition query_pairs :: "string \<Rightarrow> keys" where
  "query_pairs qs =
     map (\<lambda>kv. (takeWhile (\<lambda>c. c \<noteq> CHR ''='') kv, drop 1 (dropWhile (\<lambda>c. c \<noteq> CHR ''='') kv)))
       (split_on CHR ''&'' qs)"

definition quote_pair :: "string \<times> string \<Rightarrow> string \<times> string" where
  "quote_pair kv = (quote_plus (fst kv), quote_plus (snd kv))"

section \<open>The query string a call is to produce\<close>

text \<open>
  The rule of the query string, independent of the methods' code: a parameter that is
  \<open>None\<close> gives no pair, any other gives the one pair of its key and its \<open>str()\<close>; a
  list gives the pairs of its elements, in order.
\<close>

definition pair_of :: "string \<Rightarrow> pyval \<Rightarrow> keys" where
  "pair_of k v = (if v = PNone then [] else [(k, py_str v)])"

text \<open>The text of a date that is passed as a date: what \<open>strftime("%Y-%m-%d")\<close> makes of it.\<close>

fun date_text :: "pyval \<Rightarrow> pyval" where
  "date_text (PDate y m d) = PStr (strftime_ymd y m d)"
| "date_text v = v"

fun iter_pairs :: "string \<Rightarrow> pyarg \<Rightarrow> keys" where
  "iter_pairs k (Val v) = pair_of k v"
| "iter_pairs k (PList vs) = concat (map (pair_of k) vs)"

text \<open>
  The arguments of the documented type ``str or list'', and \<open>None\<close>: the values of the model
  that the loop accepts (\<open>None\<close> is skipped, a \<open>str\<close> is taken as one element). The other
  values of the model, a \<open>bool\<close>, an \<open>int\<close>, a \<open>float\<close> and a date, cannot be iterated
  over. What else Python can iterate over (a tuple, a set, a dict, a generator, a range,
  bytes) has no value in the model, and nothing is stated about it.
\<close>

fun none_str_or_list :: "pyarg \<Rightarrow> bool" where
  "none_str_or_list (Val PNone) = True"
| "none_str_or_list (Val (PStr s)) = True"
| "none_str_or_list (Val v) = False"
| "none_str_or_list (PList vs) = True"

text \<open>
  The pairs that follow \<open>username\<close>, method by method, in the order in which the method
  adds them. \<open>secure\<close> never gives a pair, and \<open>output_format\<close> only in \<open>search\<close>,
  as \<open>type\<close>, with the default format of the configuration in place of \<open>None\<close>.
  \<open>search\<close> gives the four bounding-box edges together or not at all. The date of
  \<open>earthquakes_bounding_box\<close> is added last; it and the date of \<open>timezone\<close> go through
  \<open>strftime("%Y-%m-%d")\<close> when they are dates, and give the pair of their \<open>str()\<close>
  otherwise.
\<close>

definition search_pairs :: "APIUrl \<Rightarrow> search_args \<Rightarrow> keys" where
  "search_pairs self a =
     pair_of ''q'' (q a) @ pair_of ''name'' (name a) @ pair_of ''name_equals'' (name_equals a)
     @ pair_of ''name_startsWith'' (name_starts_with a) @ pair_of ''maxRows'' (max_rows a)
     @ pair_of ''startRow'' (start_row a) @ iter_pairs ''country'' (country a)
     @ pair_of ''countryBias'' (country_bias a) @ pair_of ''continentCode'' (continent_code a)
     @ pair_of ''adminCode1'' (admin_code1 a) @ pair_of ''adminCode2'' (admin_code2 a)
     @ pair_of ''adminCode3'' (admin_code3 a) @ iter_pairs ''featureClass'' (feature_class a)
     @ iter_pairs ''featureCode'' (feature_code a) @ pair_of ''cities'' (cities a)
     @ pair_of ''lang'' (language a) @ pair_of ''style'' (style a)
     @ pair_of ''isNameRequired'' (is_name_required a) @ pair_of ''tag'' (tag a)
     @ pair_of ''operator'' (operator a) @ pair_of ''charset'' (charset a)
     @ pair_of ''fuzzy'' (fuzzy a)
     @ (if north a \<noteq> PNone \<and> east a \<noteq> PNone \<and> south a \<noteq> PNone \<and> west a \<noteq> PNone
        then pair_of ''north'' (north a) @ pair_of ''east'' (east a)
             @ pair_of ''south'' (south a) @ pair_of ''west'' (west a)
        else [])
     @ pair_of ''searchlang'' (search_language a) @ pair_of ''orderby'' (order_by a)
     @ pair_of ''inclBbox'' (include_bbox a)
     @ pair_of ''type''
         (if output_format a = PNone then PStr (default_output_format self) else output_format a)"

fun expected_pairs :: "APIUrl \<Rightarrow> call \<Rightarrow> keys" where
  "expected_pairs self (Search a) = search_pairs self a"
| "expected_pairs self (Cities_and_place_names_bounding_box a b c d e f g h) =
     pair_of ''north'' a @ pair_of ''east'' b @ pair_of ''south'' c @ pair_of ''west'' d
     @ pair_of ''lang'' e @ pair_of ''maxRows'' f"
| "expected_pairs self (Children a b c d e) =
     pair_of ''geonameId'' a @ pair_of ''hierarchy'' b @ pair_of ''maxRows'' c"
| "expected_pairs self (Neighbours a b c d) =
     pair_of ''geonameId'' a @ pair_of ''country'' b"
| "expected_pairs self (Hierarchy a b c) =
     pair_of ''geonameId'' a"
| "expected_pairs self (Siblings a b c) =
     pair_of ''geonameId'' a"
| "expected_pairs self (Postal_code_to_place_name a b c d e f) =
     pair_of ''postalcode'' a @ pair_of ''country'' b @ pair_of ''charset'' c
     @ pair_of ''maxRows'' d"
| "expected_pairs self (Wikipedia_find_nearby a b c d e f g h i) =
     pair_of ''lat'' a @ pair_of ''lng'' b @ pair_of ''postalcode'' c @ pair_of ''radius'' d
     @ pair_of ''lang'' e @ pair_of ''maxRows'' f @ pair_of ''country'' g"
| "expected_pairs self (Wikipedia_fulltext_search a b c d e f) =
     pair_of ''q'' a @ pair_of ''title'' b @ pair_of ''lang'' c @ pair_of ''maxRows'' d"
| "expected_pairs self (Wikipedia_bounding_box a b c d e f g h) =
     pair_of ''north'' a @ pair_of ''east'' b @ pair_of ''south'' c @ pair_of ''west'' d
     @ pair_of ''lang'' e @ pair_of ''maxRows'' f"
| "expected_pairs self (Earthquakes_bounding_box a b c d e f g h i) =
     pair_of ''north'' a @ pair_of ''east'' b @ pair_of ''south'' c @ pair_of ''west'' d
     @ pair_of ''minMagnitude'' f @ pair_of ''maxRows'' g @ pair_of ''date'' (date_text e)"
| "expected_pairs self (Weather_station_bounding_box a b c d e f g) =
     pair_of ''north'' a @ pair_of ''east'' b @ pair_of ''south'' c @ pair_of ''west'' d
     @ pair_of ''maxRows'' e"
| "expected_pairs self (Weather_station_icao a b c) =
     pair_of ''ICAO'' a"
| "expected_pairs self (Weather_station_find_nearby a b c d e) =
     pair_of ''lat'' a @ pair_of ''lng'' b @ pair_of ''radius'' c"
| "expected_pairs self (Country_info a b c d) =
     iter_pairs ''country'' a @ pair_of ''lang'' b"
| "expected_pairs self (Ocean a b c d e) =
     pair_of ''lat'' a @ pair_of ''lng'' b @ pair_of ''radius'' c"
| "expected_pairs self (Timezone a b c d e f g) =
     pair_of ''lat'' a @ pair_of ''lng'' b @ pair_of ''radius'' c @ pair_of ''lang'' d
     @ pair_of ''date'' (date_text e)"

text \<open>The base URL a call uses: a true \<open>secure\<close> argument selects the secure host, otherwise the one stored at construction.\<close>

definition call_base :: "APIUrl \<Rightarrow> pyval \<Rightarrow> string" where
  "call_base self sec = (if truthy sec then create_base_url sec else base_url self)"

text \<open>The path segment of each endpoint, and the URL made of a base, a path (with a format suffix) and the pairs.\<close>

fun endpoint_name :: "call \<Rightarrow> string" where
  "endpoint_name (Search a) = ''search''"
| "endpoint_name (Cities_and_place_names_bounding_box a b c d e f g h) = ''cities''"
| "endpoint_name (Children a b c d e) = ''children''"
| "endpoint_name (Neighbours a b c d) = ''neighbours''"
| "endpoint_name (Hierarchy a b c) = ''hierarchy''"
| "endpoint_name (Siblings a b c) = ''siblings''"
| "endpoint_name (Postal_code_to_place_name a b c d e f) = ''postalCodeLookup''"
| "endpoint_name (Wikipedia_find_nearby a b c d e f g h i) = ''findNearbyWikipedia''"
| "endpoint_name (Wikipedia_fulltext_search a b c d e f) = ''wikipediaSearch''"
| "endpoint_name (Wikipedia_bounding_box a b c d e f g h) = ''wikipediaBoundingBox''"
| "endpoint_name (Earthquakes_bounding_box a b c d e f g h i) = ''earthquakes''"
| "endpoint_name (Weather_station_bounding_box a b c d e f g) = ''weather''"
| "endpoint_name (Weather_station_icao a b c) = ''weatherIcao''"
| "endpoint_name (Weather_station_find_nearby a b c d e) = ''findNearByWeather''"
| "endpoint_name (Country_info a b c d) = ''countryInfo''"
| "endpoint_name (Ocean a b c d e) = ''ocean''"
| "endpoint_name (Timezone a b c d e f g) = ''timezone''"

definition url_of :: "APIUrl \<Rightarrow> pyval \<Rightarrow> string \<Rightarrow> string \<Rightarrow> keys \<Rightarrow> string" where
  "url_of self sec ep sfx ps =
     call_base self sec @ ep @ sfx @ ''?'' @ urlencode ((''username'', username self) # ps)"

definition sfx_ok :: "string \<Rightarrow> bool" where
  "sfx_ok sfx \<longleftrightarrow> sfx = [] \<or> sfx = ''JSON'' \<or> sfx = ''CSV''"

text \<open>The \<open>output_format\<close> argument of a call.\<close>

fun call_output_format :: "call \<Rightarrow> pyval" where
  "call_output_format (Search a) = output_format a"
| "call_output_format (Cities_and_place_names_bounding_box a b c d e f g h) = h"
| "call_output_format (Children a b c d e) = e"
| "call_output_format (Neighbours a b c d) = d"
| "call_output_format (Hierarchy a b c) = c"
| "call_output_format (Siblings a b c) = c"
| "call_output_format (Postal_code_to_place_name a b c d e f) = f"
| "call_output_format (Wikipedia_find_nearby a b c d e f g h i) = i"
| "call_output_format (Wikipedia_fulltext_search a b c d e f) = f"
| "call_output_format (Wikipedia_bounding_box a b c d e f g h) = h"
| "call_output_format (Earthquakes_bounding_box a b c d e f g h i) = i"
| "call_output_format (Weather_station_bounding_box a b c d e f g) = g"
| "call_output_format (Weather_station_icao a b c) = c"
| "call_output_format (Weather_station_find_nearby a b c d e) = e"
| "call_output_format (Country_info a b c d) = d"
| "call_output_format (Ocean a b c d e) = e"
| "call_output_format (Timezone a b c d e f g) = g"

text \<open>
  The methods that call \<open>_create_bare_end_point\<close> and pass no
  \<open>additional_output_formats\<close>: all but \<open>search\<close> and \<open>country_info\<close>.
\<close>

fun bare_without_formats :: "call \<Rightarrow> bool" where
  "bare_without_formats (Search a) = False"
| "bare_without_formats (Country_info a b c d) = False"
| "bare_without_formats c = True"

text \<open>
  An \<open>output_format\<close> with which \<open>_create_bare_end_point\<close> returns when it has no
  additional formats: a false value, or a \<open>str\<close> other than \<open>CSV\<close> in any letter case.
\<close>

fun format_accepted :: "pyval \<Rightarrow> bool" where
  "format_accepted (PStr s) = (upper s \<noteq> ''CSV'')"
| "format_accepted v = (\<not> truthy v)"

definition starts_with :: "string \<Rightarrow> string \<Rightarrow> bool" where
  "starts_with p s \<longleftrightarrow> take (length p) s = p"

definition url_keys :: "string \<Rightarrow> string list" where
  "url_keys url = map fst (query_pairs (url_query url))"

text \<open>A key that \<open>quote_plus\<close> leaves as it is.\<close>

definition safe_key :: "string \<Rightarrow> bool" where
  "safe_key k \<longleftrightarrow> list_all always_safe k"

text \<open>
  \<open>str()\<close> of an \<open>int\<close> of more than 4300 digits raises \<open>ValueError\<close> in the
  interpreter's default configuration (\<open>sys.int_max_str_digits\<close>). \<open>py_str\<close> has no such
  limit. Where a statement says that a URL is returned, it says so for arguments within the
  limit; \<open>call_args\<close> lists the arguments of a call, a list argument by its elements.
\<close>

fun within_str_limit :: "pyval \<Rightarrow> bool" where
  "within_str_limit (PInt i) = (length (str_nat (nat \<bar>i\<bar>)) \<le> 4300)"
| "within_str_limit v = True"

fun arg_values :: "pyarg \<Rightarrow> pyval list" where
  "arg_values (Val v) = [v]"
| "arg_values (PList vs) = vs"

definition search_values :: "search_args \<Rightarrow> pyval list" where
  "search_values a =
     [q a, name a, name_equals a, name_starts_with a, max_rows a, start_row a,
      country_bias a, continent_code a, admin_code1 a, admin_code2 a, admin_code3 a,
      cities a, language a, style a, is_name_required a, tag a, operator a, charset a,
      fuzzy a, north a, east a, south a, west a, search_language a, order_by a,
      include_bbox a, secure a, output_format a]
     @ arg_values (country a) @ arg_values (feature_class a) @ arg_values (feature_code a)"

fun call_args :: "call \<Rightarrow> pyval list" where
  "call_args (Search a) = search_values a"
| "call_args (Cities_and_place_names_bounding_box a b c d e f g h) = [a, b, c, d, e, f, g, h]"
| "call_args (Children a b c d e) = [a, b, c, d, e]"
| "call_args (Neighbours a b c d) = [a, b, c, d]"
| "call_args (Hierarchy a b c) = [a, b, c]"
| "call_args (Siblings a b c) = [a, b, c]"
| "call_args (Postal_code_to_place_name a b c d e f) = [a, b, c, d, e, f]"
| "call_args (Wikipedia_find_nearby a b c d e f g h i) = [a, b, c, d, e, f, g, h, i]"
| "call_args (Wikipedia_fulltext_search a b c d e f) = [a, b, c, d, e, f]"
| "call_args (Wikipedia_bounding_box a b c d e f g h) = [a, b, c, d, e, f, g, h]"
| "call_args (Earthquakes_bounding_box a b c d e f g h i) = [a, b, c, d, e, f, g, h, i]"
| "call_args (Weather_station_bounding_box a b c d e f g) = [a, b, c, d, e, f, g]"
| "call_args (Weather_station_icao a b c) = [a, b, c]"
| "call_args (Weather_station_find_nearby a b c d e) = [a, b, c, d, e]"
| "call_args (Country_info a b c d) = arg_values a @ [b, c, d]"
| "call_args (Ocean a b c d e) = [a, b, c, d, e]"
| "call_args (Timezone a b c d e f g) = [a, b, c, d, e, f, g]"

text \<open>
  The configuration of the script's main block, \<open>a = APIUrl('API_KEY')\<close>, and the same
  with \<open>secure=False\<close>.
\<close>

definition a_main :: APIUrl where
  "a_main = \<lparr>username = ''API_KEY'', base_url = ''https://secure.geonames.org/'',
             default_output_format = ''JSON''\<rparr>"

definition a_plain :: APIUrl where
  "a_plain = \<lparr>username = ''API_KEY'', base_url = ''http://api.geonames.org/'',
              default_output_format = ''JSON''\<rparr>"

section \<open>The private methods, in closed form\<close>

lemma add_key_value_eq: "add_key_value ks k v = ks @ pair_of k v"
  by (simp add: add_key_value_def pair_of_def)

lemma add_date_eq: "add_date self ks d k = ks @ pair_of k (date_text d)"
  by (cases d) (simp_all add: add_date_def add_key_value_eq)

lemma foldl_add_key_value: "foldl (\<lambda>ks c. add_key_value ks k c) ks cs = ks @ concat (map (pair_of k) cs)"
  by (induction cs arbitrary: ks) (simp_all add: add_key_value_eq)

lemma add_iterable_eq:
  "add_iterable ks k arg = (if none_str_or_list arg then Inr (ks @ iter_pairs k arg) else Inl TypeError)"
proof (cases arg)
  case (Val v)
  then show ?thesis
    by (cases v) (simp_all add: add_iterable_def add_key_value_eq pair_of_def)
next
  case (PList vs)
  then show ?thesis
    by (simp add: add_iterable_def foldl_add_key_value)
qed

lemma bare_shape:
  assumes "create_bare_end_point self sec ep fmt adds = Inr (url, ks)"
  shows "ks = [(''username'', username self)] \<and>
         (\<exists>sfx. url = call_base self sec @ ep @ sfx @ ''?'' \<and> (sfx = [] \<or> sfx = ''JSON'' \<or> sfx = ''CSV''))"
proof -
  have u: "upper s = ''JSON'' \<Longrightarrow> upper s \<noteq> ''CSV''" for s by simp
  show ?thesis
    using assms
    by (auto simp: create_bare_end_point_def call_base_def Let_def u
        split: if_splits pyval.splits option.splits formats.splits)
qed

lemma bare_cases:
  assumes "(case create_bare_end_point self sec ep fmt adds of
              Inl e \<Rightarrow> Inl e | Inr (url, keys) \<Rightarrow> F url keys) = Inr r"
  shows "\<exists>sfx. sfx_ok sfx \<and>
           F (call_base self sec @ ep @ sfx @ ''?'') [(''username'', username self)] = Inr r"
proof (cases "create_bare_end_point self sec ep fmt adds")
  case (Inl e)
  with assms show ?thesis by simp
next
  case (Inr p)
  obtain url ks where p: "p = (url, ks)" by (cases p)
  from bare_shape[OF Inr[unfolded p]] obtain sfx where
    "ks = [(''username'', username self)]" "url = call_base self sec @ ep @ sfx @ ''?''" "sfx_ok sfx"
    by (auto simp: sfx_ok_def)
  with assms Inr p show ?thesis by auto
qed

section \<open>The shape of every returned URL\<close>

lemma search_eq:
  "search self a =
     (if \<not> (truthy (q a) \<or> truthy (name a) \<or> truthy (name_equals a)) then Inl AssertionError
      else if \<not> (none_str_or_list (country a) \<and> none_str_or_list (feature_class a) \<and> none_str_or_list (feature_code a))
      then Inl TypeError
      else Inr (url_of self (secure a) ''search'' [] (search_pairs self a)))"
  by (simp add: search_def url_of_def call_base_def search_pairs_def add_key_value_eq
      add_iterable_eq Let_def)

lemma cities_and_place_names_bounding_box_shape:
  assumes "cities_and_place_names_bounding_box self a b c d e f g h = Inr url"
  shows "\<exists>sfx. sfx_ok sfx \<and>
           url = url_of self g ''cities'' sfx (expected_pairs self (Cities_and_place_names_bounding_box a b c d e f g h))"
  using bare_cases[OF assms[unfolded cities_and_place_names_bounding_box_def]]
  by (auto simp: url_of_def add_key_value_eq add_date_eq add_iterable_eq Let_def
      split: if_splits)

lemma children_shape:
  assumes "children self a b c d e = Inr url"
  shows "\<exists>sfx. sfx_ok sfx \<and>
           url = url_of self d ''children'' sfx (expected_pairs self (Children a b c d e))"
  using bare_cases[OF assms[unfolded children_def]]
  by (auto simp: url_of_def add_key_value_eq add_date_eq add_iterable_eq Let_def
      split: if_splits)

lemma neighbours_shape:
  assumes "neighbours self a b c d = Inr url"
  shows "\<exists>sfx. sfx_ok sfx \<and>
           url = url_of self c ''neighbours'' sfx (expected_pairs self (Neighbours a b c d))"
  using bare_cases[OF assms[unfolded neighbours_def]]
  by (auto simp: url_of_def add_key_value_eq add_date_eq add_iterable_eq Let_def
      split: if_splits)

lemma hierarchy_shape:
  assumes "hierarchy self a b c = Inr url"
  shows "\<exists>sfx. sfx_ok sfx \<and>
           url = url_of self b ''hierarchy'' sfx (expected_pairs self (Hierarchy a b c))"
  using bare_cases[OF assms[unfolded hierarchy_def]]
  by (auto simp: url_of_def add_key_value_eq add_date_eq add_iterable_eq Let_def
      split: if_splits)

lemma siblings_shape:
  assumes "siblings self a b c = Inr url"
  shows "\<exists>sfx. sfx_ok sfx \<and>
           url = url_of self b ''siblings'' sfx (expected_pairs self (Siblings a b c))"
  using bare_cases[OF assms[unfolded siblings_def]]
  by (auto simp: url_of_def add_key_value_eq add_date_eq add_iterable_eq Let_def
      split: if_splits)

lemma postal_code_to_place_name_shape:
  assumes "postal_code_to_place_name self a b c d e f = Inr url"
  shows "\<exists>sfx. sfx_ok sfx \<and>
           url = url_of self e ''postalCodeLookup'' sfx (expected_pairs self (Postal_code_to_place_name a b c d e f))"
  using bare_cases[OF assms[unfolded postal_code_to_place_name_def]]
  by (auto simp: url_of_def add_key_value_eq add_date_eq add_iterable_eq Let_def
      split: if_splits)

lemma wikipedia_find_nearby_shape:
  assumes "wikipedia_find_nearby self a b c d e f g h i = Inr url"
  shows "\<exists>sfx. sfx_ok sfx \<and>
           url = url_of self h ''findNearbyWikipedia'' sfx (expected_pairs self (Wikipedia_find_nearby a b c d e f g h i))"
  using bare_cases[OF assms[unfolded wikipedia_find_nearby_def]]
  by (auto simp: url_of_def add_key_value_eq add_date_eq add_iterable_eq Let_def
      split: if_splits)

lemma wikipedia_fulltext_search_shape:
  assumes "wikipedia_fulltext_search self a b c d e f = Inr url"
  shows "\<exists>sfx. sfx_ok sfx \<and>
           url = url_of self e ''wikipediaSearch'' sfx (expected_pairs self (Wikipedia_fulltext_search a b c d e f))"
  using bare_cases[OF assms[unfolded wikipedia_fulltext_search_def]]
  by (auto simp: url_of_def add_key_value_eq add_date_eq add_iterable_eq Let_def
      split: if_splits)

lemma wikipedia_bounding_box_shape:
  assumes "wikipedia_bounding_box self a b c d e f g h = Inr url"
  shows "\<exists>sfx. sfx_ok sfx \<and>
           url = url_of self g ''wikipediaBoundingBox'' sfx (expected_pairs self (Wikipedia_bounding_box a b c d e f g h))"
  using bare_cases[OF assms[unfolded wikipedia_bounding_box_def]]
  by (auto simp: url_of_def add_key_value_eq add_date_eq add_iterable_eq Let_def
      split: if_splits)

lemma earthquakes_bounding_box_shape:
  assumes "earthquakes_bounding_box self a b c d e f g h i = Inr url"
  shows "\<exists>sfx. sfx_ok sfx \<and>
           url = url_of self h ''earthquakes'' sfx (expected_pairs self (Earthquakes_bounding_box a b c d e f g h i))"
  using bare_cases[OF assms[unfolded earthquakes_bounding_box_def]]
  by (auto simp: url_of_def add_key_value_eq add_date_eq add_iterable_eq Let_def
      split: if_splits)

lemma weather_station_bounding_box_shape:
  assumes "weather_station_bounding_box self a b c d e f g = Inr url"
  shows "\<exists>sfx. sfx_ok sfx \<and>
           url = url_of self f ''weather'' sfx (expected_pairs self (Weather_station_bounding_box a b c d e f g))"
  using bare_cases[OF assms[unfolded weather_station_bounding_box_def]]
  by (auto simp: url_of_def add_key_value_eq add_date_eq add_iterable_eq Let_def
      split: if_splits)

lemma weather_station_icao_shape:
  assumes "weather_station_icao self a b c = Inr url"
  shows "\<exists>sfx. sfx_ok sfx \<and>
           url = url_of self b ''weatherIcao'' sfx (expected_pairs self (Weather_station_icao a b c))"
  using bare_cases[OF assms[unfolded weather_station_icao_def]]
  by (auto simp: url_of_def add_key_value_eq add_date_eq add_iterable_eq Let_def
      split: if_splits)

lemma weather_station_find_nearby_shape:
  assumes "weather_station_find_nearby self a b c d e = Inr url"
  shows "\<exists>sfx. sfx_ok sfx \<and>
           url = url_of self d ''findNearByWeather'' sfx (expected_pairs self (Weather_station_find_nearby a b c d e))"
  using bare_cases[OF assms[unfolded weather_station_find_nearby_def]]
  by (auto simp: url_of_def add_key_value_eq add_date_eq add_iterable_eq Let_def
      split: if_splits)

lemma country_info_shape:
  assumes "country_info self a b c d = Inr url"
  shows "\<exists>sfx. sfx_ok sfx \<and>
           url = url_of self c ''countryInfo'' sfx (expected_pairs self (Country_info a b c d))"
  using bare_cases[OF assms[unfolded country_info_def]]
  by (auto simp: url_of_def add_key_value_eq add_date_eq add_iterable_eq Let_def
      split: if_splits)

lemma ocean_shape:
  assumes "ocean self a b c d e = Inr url"
  shows "\<exists>sfx. sfx_ok sfx \<and>
           url = url_of self d ''ocean'' sfx (expected_pairs self (Ocean a b c d e))"
  using bare_cases[OF assms[unfolded ocean_def]]
  by (auto simp: url_of_def add_key_value_eq add_date_eq add_iterable_eq Let_def
      split: if_splits)

lemma timezone_shape:
  assumes "timezone self a b c d e f g = Inr url"
  shows "\<exists>sfx. sfx_ok sfx \<and>
           url = url_of self f ''timezone'' sfx (expected_pairs self (Timezone a b c d e f g))"
  using bare_cases[OF assms[unfolded timezone_def]]
  by (auto simp: url_of_def add_key_value_eq add_date_eq add_iterable_eq Let_def
      split: if_splits)

lemma run_shape:
  assumes "run self c = Inr url"
  shows "\<exists>sfx. sfx_ok sfx \<and>
           url = url_of self (call_secure c) (endpoint_name c) sfx (expected_pairs self c)"
proof (cases c)
  case (Search a)
  with assms show ?thesis
    by (auto simp: search_eq sfx_ok_def split: if_splits)
next
  case (Cities_and_place_names_bounding_box a b c d e f g h)
  with assms cities_and_place_names_bounding_box_shape[of self a b c d e f g h url] show ?thesis by simp
next
  case (Children a b c d e)
  with assms children_shape[of self a b c d e url] show ?thesis by simp
next
  case (Neighbours a b c d)
  with assms neighbours_shape[of self a b c d url] show ?thesis by simp
next
  case (Hierarchy a b c)
  with assms hierarchy_shape[of self a b c url] show ?thesis by simp
next
  case (Siblings a b c)
  with assms siblings_shape[of self a b c url] show ?thesis by simp
next
  case (Postal_code_to_place_name a b c d e f)
  with assms postal_code_to_place_name_shape[of self a b c d e f url] show ?thesis by simp
next
  case (Wikipedia_find_nearby a b c d e f g h i)
  with assms wikipedia_find_nearby_shape[of self a b c d e f g h i url] show ?thesis by simp
next
  case (Wikipedia_fulltext_search a b c d e f)
  with assms wikipedia_fulltext_search_shape[of self a b c d e f url] show ?thesis by simp
next
  case (Wikipedia_bounding_box a b c d e f g h)
  with assms wikipedia_bounding_box_shape[of self a b c d e f g h url] show ?thesis by simp
next
  case (Earthquakes_bounding_box a b c d e f g h i)
  with assms earthquakes_bounding_box_shape[of self a b c d e f g h i url] show ?thesis by simp
next
  case (Weather_station_bounding_box a b c d e f g)
  with assms weather_station_bounding_box_shape[of self a b c d e f g url] show ?thesis by simp
next
  case (Weather_station_icao a b c)
  with assms weather_station_icao_shape[of self a b c url] show ?thesis by simp
next
  case (Weather_station_find_nearby a b c d e)
  with assms weather_station_find_nearby_shape[of self a b c d e url] show ?thesis by simp
next
  case (Country_info a b c d)
  with assms country_info_shape[of self a b c d url] show ?thesis by simp
next
  case (Ocean a b c d e)
  with assms ocean_shape[of self a b c d e url] show ?thesis by simp
next
  case (Timezone a b c d e f g)
  with assms timezone_shape[of self a b c d e f g url] show ?thesis by simp
qed

section \<open>Reading the query string back\<close>

lemma hex_digit_in: "hex_digit n \<in> set ''0123456789ABCDEF''"
  unfolding hex_digit_def by (rule nth_mem) simp

lemma quote_char_seps:
  assumes "c \<in> set (quote_char x)"
  shows "c \<noteq> CHR ''&'' \<and> c \<noteq> CHR ''='' \<and> c \<noteq> CHR ''?''"
proof -
  have h: "hex_digit n \<noteq> CHR ''&'' \<and> hex_digit n \<noteq> CHR ''='' \<and> hex_digit n \<noteq> CHR ''?''" for n
    using hex_digit_in[of n] by auto
  show ?thesis
    using assms h
    by (auto simp: quote_char_def always_safe_def split: if_splits)
qed

lemma quote_plus_seps:
  "CHR ''&'' \<notin> set (quote_plus s)" "CHR ''='' \<notin> set (quote_plus s)" "CHR ''?'' \<notin> set (quote_plus s)"
  using quote_char_seps by (auto simp: quote_plus_def)

lemma split_on_single: "sep \<notin> set x \<Longrightarrow> split_on sep x = [x]"
  by (induction x) auto

lemma split_on_append: "sep \<notin> set x \<Longrightarrow> split_on sep (x @ sep # rest) = x # split_on sep rest"
  by (induction x) auto

lemma split_on_join:
  assumes "\<forall>x \<in> set xs. c \<notin> set x" "xs \<noteq> []"
  shows "split_on c (join [c] xs) = xs"
  using assms
proof (induction xs rule: induct_list012)
  case 1
  then show ?case by simp
next
  case (2 x)
  then show ?case by (simp add: split_on_single)
next
  case (3 x y zs)
  then show ?case by (simp add: split_on_append)
qed

lemma takeWhile_sep: "c \<notin> set k \<Longrightarrow> takeWhile (\<lambda>x. x \<noteq> c) (k @ c # v) = k"
  by (induction k) auto

lemma dropWhile_sep: "c \<notin> set k \<Longrightarrow> dropWhile (\<lambda>x. x \<noteq> c) (k @ c # v) = c # v"
  by (induction k) auto

lemma query_pairs_urlencode:
  assumes "ks \<noteq> []"
  shows "query_pairs (urlencode ks) = map quote_pair ks"
proof -
  let ?f = "\<lambda>(k, v). quote_plus k @ ''='' @ quote_plus v"
  have "\<forall>x \<in> set (map ?f ks). CHR ''&'' \<notin> set x"
    by (auto simp: quote_plus_seps)
  then have "split_on CHR ''&'' (urlencode ks) = map ?f ks"
    unfolding urlencode_def using assms by (intro split_on_join) auto
  then show ?thesis
    by (auto simp: query_pairs_def quote_pair_def takeWhile_sep dropWhile_sep quote_plus_seps)
qed

lemma url_query_append:
  assumes "CHR ''?'' \<notin> set p"
  shows "url_query (p @ ''?'' @ qs) = qs"
  using assms by (simp add: url_query_def dropWhile_sep)

lemma endpoint_name_no_qmark: "CHR ''?'' \<notin> set (endpoint_name c)"
  by (cases c) simp_all

lemma create_base_url_no_qmark: "CHR ''?'' \<notin> set (create_base_url s)"
  by (simp add: create_base_url_def)

lemma init_fields:
  assumes "init u s d = Inr self"
  shows "u = PStr (username self)" "base_url self = create_base_url s"
    "d = PStr (default_output_format self)"
  using assms by (auto simp: init_def split: pyval.splits if_splits)

lemma url_query_url_of:
  assumes "CHR ''?'' \<notin> set (base_url self)" "CHR ''?'' \<notin> set ep" "sfx_ok sfx"
  shows "url_query (url_of self sec ep sfx ps) = urlencode ((''username'', username self) # ps)"
proof -
  have "CHR ''?'' \<notin> set (call_base self sec @ ep @ sfx)"
    using assms by (auto simp: call_base_def create_base_url_no_qmark sfx_ok_def)
  from url_query_append[OF this] show ?thesis
    by (simp add: url_of_def)
qed

lemma run_query_pairs:
  assumes "CHR ''?'' \<notin> set (base_url self)" "run self c = Inr url"
  shows "query_pairs (url_query url) = map quote_pair ((''username'', username self) # expected_pairs self c)"
proof -
  from run_shape[OF assms(2)] obtain sfx where
    s: "sfx_ok sfx" and u: "url = url_of self (call_secure c) (endpoint_name c) sfx (expected_pairs self c)"
    by blast
  show ?thesis
    unfolding u url_query_url_of[OF assms(1) endpoint_name_no_qmark s]
    by (rule query_pairs_urlencode) simp
qed

lemma init_no_qmark:
  assumes "init u s d = Inr self"
  shows "CHR ''?'' \<notin> set (base_url self)"
  using init_fields(2)[OF assms] by (simp add: create_base_url_no_qmark)

section \<open>Evaluation on the calls of the script's main block\<close>

lemmas eval_simps =
  create_bare_end_point_def create_base_url_def add_key_value_def add_date_def add_iterable_def
  urlencode_def quote_plus_def quote_char_def always_safe_def hex_digit_def
  upper_char_def str_int_def str_nat.simps digit_char_def strftime_ymd_def isoformat_def zero_pad_def
  a_main_def a_plain_def Let_def url_query_def query_pairs_def quote_pair_def pair_of_def
  url_keys_def starts_with_def

lemma init_a_main: "init (PStr ''API_KEY'') (PBool True) (PStr ''JSON'') = Inr a_main"
  by (simp add: init_def a_main_def create_base_url_def)

lemma init_a_plain: "init (PStr ''API_KEY'') (PBool False) (PStr ''JSON'') = Inr a_plain"
  by (simp add: init_def a_plain_def create_base_url_def)

lemma search_costa_del_sol:
  "run a_main (Search (search_defaults\<lparr>q := PStr ''costa del sol'',
                                       country := PList [PStr ''DE'', PStr ''NL'']\<rparr>)) =
     Inr ''https://secure.geonames.org/search?username=API_KEY&q=costa+del+sol&country=DE&country=NL&type=JSON''"
  by (simp add: search_eq search_defaults_def url_of_def call_base_def search_pairs_def eval_simps)

lemma search_partial_box:
  "search a_main (search_defaults\<lparr>q := PStr ''costa del sol'', north := PFloat ''44.1''\<rparr>) =
     Inr ''https://secure.geonames.org/search?username=API_KEY&q=costa+del+sol&type=JSON''"
  by (simp add: search_eq search_defaults_def url_of_def call_base_def search_pairs_def eval_simps)

lemma hierarchy_a_main:
  "run a_main (Hierarchy (PInt 2782113) PNone PNone) =
     Inr ''https://secure.geonames.org/hierarchyJSON?username=API_KEY&geonameId=2782113''"
  by (simp add: hierarchy_def eval_simps)

lemma timezone_year_999:
  "run a_main (Timezone (PFloat ''51.2277'') (PFloat ''6.7735'') PNone PNone (PDate 999 1 1)
                PNone PNone) =
     Inr ''https://secure.geonames.org/timezoneJSON?username=API_KEY&lat=51.2277&lng=6.7735&date=999-01-01''"
  by (simp add: timezone_def eval_simps)

section \<open>What the computations do to the state\<close>

lemma seq_ret: "seq (ret x) f s = f x s"
  by (simp add: seq_def ret_def)

lemma seq_throw: "seq (throw e) f s = (Inl e, s)"
  by (simp add: seq_def throw_def)

lemma seq_self_attr: "seq (self_attr g) f s = f (g (snd s)) s"
  by (simp add: seq_def self_attr_def)

lemma seq_assert: "seq (py_assert b) f s = (if b then f () s else (Inl AssertionError, s))"
  by (simp add: py_assert_def seq_ret seq_throw)

lemma seq_lift: "seq (lift r) f s = (case r of Inl e \<Rightarrow> (Inl e, s) | Inr x \<Rightarrow> f x s)"
  by (cases r) (simp_all add: lift_def seq_ret seq_throw)

lemma seq_if: "seq (if c then m else n) f s = (if c then seq m f s else seq n f s)"
  by simp

lemma seq_assoc: "seq (seq m g) f s = seq m (\<lambda>x. seq (g x) f) s"
  by (simp add: seq_def split: prod.splits sum.splits)

lemma ret_apply: "ret x s = (Inr x, s)"
  by (simp add: ret_def)

lemmas seq_simps = seq_assoc seq_ret seq_throw seq_self_attr seq_assert seq_lift seq_if ret_apply

lemma create_bare_end_point_m_eq:
  "create_bare_end_point_m sec ep fmt adds (w, self) =
     (create_bare_end_point self sec ep fmt adds, (w, self))"
  by (simp add: create_bare_end_point_m_def create_bare_end_point_def seq_def ret_def throw_def
      self_attr_def Let_def split: pyval.splits formats.splits option.splits)

lemma seq_bare:
  "seq (create_bare_end_point_m sec ep fmt adds) f (w, self) =
     (case create_bare_end_point self sec ep fmt adds of
        Inl e \<Rightarrow> (Inl e, (w, self))
      | Inr p \<Rightarrow> f p (w, self))"
  by (simp add: seq_def create_bare_end_point_m_eq split: sum.splits)

lemma seq_add_date:
  "seq (add_date_m ks d k) f (w, self) = f (add_date self ks d k) (w, self)"
  by (simp add: add_date_m_def add_date_def Let_def seq_ret)

lemma cities_and_place_names_bounding_box_m_eq:
  "cities_and_place_names_bounding_box_m a b c d e f g h (w, self) = (cities_and_place_names_bounding_box self a b c d e f g h, (w, self))"
  by (auto simp add: cities_and_place_names_bounding_box_m_def cities_and_place_names_bounding_box_def seq_bare seq_add_date seq_simps Let_def
      split: sum.splits prod.splits)

lemma children_m_eq:
  "children_m a b c d e (w, self) = (children self a b c d e, (w, self))"
  by (auto simp add: children_m_def children_def seq_bare seq_add_date seq_simps Let_def
      split: sum.splits prod.splits)

lemma neighbours_m_eq:
  "neighbours_m a b c d (w, self) = (neighbours self a b c d, (w, self))"
  by (auto simp add: neighbours_m_def neighbours_def seq_bare seq_add_date seq_simps Let_def
      split: sum.splits prod.splits)

lemma hierarchy_m_eq:
  "hierarchy_m a b c (w, self) = (hierarchy self a b c, (w, self))"
  by (auto simp add: hierarchy_m_def hierarchy_def seq_bare seq_add_date seq_simps Let_def
      split: sum.splits prod.splits)

lemma siblings_m_eq:
  "siblings_m a b c (w, self) = (siblings self a b c, (w, self))"
  by (auto simp add: siblings_m_def siblings_def seq_bare seq_add_date seq_simps Let_def
      split: sum.splits prod.splits)

lemma postal_code_to_place_name_m_eq:
  "postal_code_to_place_name_m a b c d e f (w, self) = (postal_code_to_place_name self a b c d e f, (w, self))"
  by (auto simp add: postal_code_to_place_name_m_def postal_code_to_place_name_def seq_bare seq_add_date seq_simps Let_def
      split: sum.splits prod.splits)

lemma wikipedia_find_nearby_m_eq:
  "wikipedia_find_nearby_m a b c d e f g h i (w, self) = (wikipedia_find_nearby self a b c d e f g h i, (w, self))"
  by (auto simp add: wikipedia_find_nearby_m_def wikipedia_find_nearby_def seq_bare seq_add_date seq_simps Let_def
      split: sum.splits prod.splits)

lemma wikipedia_fulltext_search_m_eq:
  "wikipedia_fulltext_search_m a b c d e f (w, self) = (wikipedia_fulltext_search self a b c d e f, (w, self))"
  by (auto simp add: wikipedia_fulltext_search_m_def wikipedia_fulltext_search_def seq_bare seq_add_date seq_simps Let_def
      split: sum.splits prod.splits)

lemma wikipedia_bounding_box_m_eq:
  "wikipedia_bounding_box_m a b c d e f g h (w, self) = (wikipedia_bounding_box self a b c d e f g h, (w, self))"
  by (auto simp add: wikipedia_bounding_box_m_def wikipedia_bounding_box_def seq_bare seq_add_date seq_simps Let_def
      split: sum.splits prod.splits)

lemma earthquakes_bounding_box_m_eq:
  "earthquakes_bounding_box_m a b c d e f g h i (w, self) = (earthquakes_bounding_box self a b c d e f g h i, (w, self))"
  by (auto simp add: earthquakes_bounding_box_m_def earthquakes_bounding_box_def seq_bare seq_add_date seq_simps Let_def
      split: sum.splits prod.splits)

lemma weather_station_bounding_box_m_eq:
  "weather_station_bounding_box_m a b c d e f g (w, self) = (weather_station_bounding_box self a b c d e f g, (w, self))"
  by (auto simp add: weather_station_bounding_box_m_def weather_station_bounding_box_def seq_bare seq_add_date seq_simps Let_def
      split: sum.splits prod.splits)

lemma weather_station_icao_m_eq:
  "weather_station_icao_m a b c (w, self) = (weather_station_icao self a b c, (w, self))"
  by (auto simp add: weather_station_icao_m_def weather_station_icao_def seq_bare seq_add_date seq_simps Let_def
      split: sum.splits prod.splits)

lemma weather_station_find_nearby_m_eq:
  "weather_station_find_nearby_m a b c d e (w, self) = (weather_station_find_nearby self a b c d e, (w, self))"
  by (auto simp add: weather_station_find_nearby_m_def weather_station_find_nearby_def seq_bare seq_add_date seq_simps Let_def
      split: sum.splits prod.splits)

lemma ocean_m_eq:
  "ocean_m a b c d e (w, self) = (ocean self a b c d e, (w, self))"
  by (auto simp add: ocean_m_def ocean_def seq_bare seq_add_date seq_simps Let_def
      split: sum.splits prod.splits)

lemma timezone_m_eq:
  "timezone_m a b c d e f g (w, self) = (timezone self a b c d e f g, (w, self))"
  by (auto simp add: timezone_m_def timezone_def seq_bare seq_add_date seq_simps Let_def
      split: sum.splits prod.splits)

lemma country_info_m_eq:
  "country_info_m a b c d (w, self) = (country_info self a b c d, (w, self))"
  by (simp add: country_info_m_def country_info_def seq_bare seq_simps Let_def
      split: sum.splits prod.splits)

lemma search_m_eq: "search_m a (w, self) = (search self a, (w, self))"
  by (simp add: search_m_def search_eq url_of_def call_base_def search_pairs_def seq_simps
      add_key_value_eq add_iterable_eq Let_def)

lemma call_m_eq: "call_m c (w, self) = (run self c, (w, self))"
  by (cases c)
    (simp_all add: search_m_eq country_info_m_eq
      cities_and_place_names_bounding_box_m_eq
      children_m_eq
      neighbours_m_eq
      hierarchy_m_eq
      siblings_m_eq
      postal_code_to_place_name_m_eq
      wikipedia_find_nearby_m_eq
      wikipedia_fulltext_search_m_eq
      wikipedia_bounding_box_m_eq
      earthquakes_bounding_box_m_eq
      weather_station_bounding_box_m_eq
      weather_station_icao_m_eq
      weather_station_find_nearby_m_eq
      ocean_m_eq
      timezone_m_eq)

section \<open>The claims\<close>

subsection \<open>C1: the pairs of the query string\<close>

text \<open>
  Claim C1 as stated (every non-\<open>None\<close> parameter appears exactly once as a pair) fails:
  \<open>search\<close> called with \<open>north\<close> set and the other three edges left \<open>None\<close> returns a
  URL without a \<open>north\<close> pair.
\<close>

theorem non_none_parameter_without_pair:
  "search a_main (search_defaults\<lparr>q := PStr ''costa del sol'', north := PFloat ''44.1''\<rparr>) =
     Inr ''https://secure.geonames.org/search?username=API_KEY&q=costa+del+sol&type=JSON'' \<and>
   north (search_defaults\<lparr>q := PStr ''costa del sol'', north := PFloat ''44.1''\<rparr>) \<noteq> PNone \<and>
   ''north'' \<notin> set (url_keys
     ''https://secure.geonames.org/search?username=API_KEY&q=costa+del+sol&type=JSON'')"
  using search_partial_box by (simp add: eval_simps)

text \<open>
  Claim C1, amended: for every endpoint method and every configuration built by the
  constructor, when the call returns a URL its query string is, pair for pair and in this
  order, \<open>username\<close> followed by the method's pairs \<open>expected_pairs\<close>, each percent-encoded:
  a parameter that is \<open>None\<close> gives no pair, any other gives exactly one pair, in the
  method's fixed order, except that a list given for \<open>country\<close>, \<open>feature_class\<close> or
  \<open>feature_code\<close> gives one pair for each element that is not \<open>None\<close>, that \<open>search\<close>
  gives the pairs of \<open>north\<close>, \<open>east\<close>, \<open>south\<close>, \<open>west\<close> only when all four are not
  \<open>None\<close>, that \<open>secure\<close> gives no pair, and that \<open>output_format\<close> gives a pair only in
  \<open>search\<close> (\<open>type\<close>, with the configuration's default format when it is \<open>None\<close>).
  The value of a pair is the \<open>str()\<close> of the argument; a date passed to
  \<open>sunrise_sunset_date\<close> or \<open>up_to_date\<close> is written as \<open>strftime("%Y-%m-%d")\<close>
  writes it.
\<close>

theorem query_pairs_in_assembly_order:
  assumes "init u s d = Inr self" and "run self c = Inr url"
  shows "query_pairs (url_query url) =
           map quote_pair ((''username'', username self) # expected_pairs self c)"
  using run_query_pairs[OF init_no_qmark[OF assms(1)] assms(2)] .

theorem query_pairs_in_assembly_order_witness:
  "init (PStr ''API_KEY'') (PBool True) (PStr ''JSON'') = Inr a_main \<and>
   run a_main (Search (search_defaults\<lparr>q := PStr ''costa del sol'',
                                       country := PList [PStr ''DE'', PStr ''NL'']\<rparr>)) =
     Inr ''https://secure.geonames.org/search?username=API_KEY&q=costa+del+sol&country=DE&country=NL&type=JSON'' \<and>
   query_pairs (url_query
     ''https://secure.geonames.org/search?username=API_KEY&q=costa+del+sol&country=DE&country=NL&type=JSON'') =
     [(''username'', ''API_KEY''), (''q'', ''costa+del+sol''), (''country'', ''DE''),
      (''country'', ''NL''), (''type'', ''JSON'')] \<and>
   run a_main (Timezone (PFloat ''51.2277'') (PFloat ''6.7735'') PNone PNone (PDate 999 1 1)
                PNone PNone) =
     Inr ''https://secure.geonames.org/timezoneJSON?username=API_KEY&lat=51.2277&lng=6.7735&date=999-01-01'' \<and>
   query_pairs (url_query
     ''https://secure.geonames.org/timezoneJSON?username=API_KEY&lat=51.2277&lng=6.7735&date=999-01-01'') =
     [(''username'', ''API_KEY''), (''lat'', ''51.2277''), (''lng'', ''6.7735''),
      (''date'', ''999-01-01'')]"
  using query_pairs_in_assembly_order[OF init_a_main search_costa_del_sol]
    query_pairs_in_assembly_order[OF init_a_main timezone_year_999]
    init_a_main search_costa_del_sol timezone_year_999
  by (simp add: search_defaults_def search_pairs_def eval_simps)

subsection \<open>C8: the username comes first\<close>

text \<open>
  Claim C8: every URL returned by an endpoint method of a configuration constructed with
  the username \<open>un\<close> has a query string whose first key-value pair is \<open>username\<close> with
  the (percent-encoded) value \<open>un\<close>.
\<close>

theorem username_is_first_pair:
  assumes "init (PStr un) s d = Inr self" and "run self c = Inr url"
  shows "query_pairs (url_query url) \<noteq> [] \<and>
         hd (query_pairs (url_query url)) = (''username'', quote_plus un)"
proof -
  have q: "quote_plus ''username'' = ''username''"
    by (simp add: quote_plus_def quote_char_def always_safe_def)
  have un: "username self = un"
    using init_fields(1)[OF assms(1)] by simp
  show ?thesis
    using run_query_pairs[OF init_no_qmark[OF assms(1)] assms(2)] q un
    by (simp add: quote_pair_def)
qed

theorem username_is_first_pair_witness:
  "init (PStr ''API_KEY'') (PBool True) (PStr ''JSON'') = Inr a_main \<and>
   run a_main (Hierarchy (PInt 2782113) PNone PNone) =
     Inr ''https://secure.geonames.org/hierarchyJSON?username=API_KEY&geonameId=2782113'' \<and>
   hd (query_pairs (url_query
     ''https://secure.geonames.org/hierarchyJSON?username=API_KEY&geonameId=2782113'')) =
     (''username'', ''API_KEY'')"
  using username_is_first_pair[OF init_a_main hierarchy_a_main] init_a_main hierarchy_a_main
  by (simp add: quote_plus_def quote_char_def always_safe_def)

subsection \<open>C4: the bounding box of \<open>search\<close>\<close>

lemma quote_plus_safe: "safe_key k \<Longrightarrow> quote_plus k = k"
  by (induction k) (simp_all add: quote_plus_def quote_char_def safe_key_def)

lemma safe_pair_of: "safe_key k \<Longrightarrow> list_all (\<lambda>p. safe_key (fst p)) (pair_of k v)"
  by (simp add: pair_of_def)

lemma safe_iter_pairs: "safe_key k \<Longrightarrow> list_all (\<lambda>p. safe_key (fst p)) (iter_pairs k a)"
  by (cases a) (auto simp: pair_of_def list_all_iff)

lemma expected_pairs_safe: "list_all (\<lambda>p. safe_key (fst p)) (expected_pairs self c)"
proof -
  have k: "list_all safe_key [''q'', ''name'', ''name_equals'', ''name_startsWith'', ''maxRows'',
      ''startRow'', ''country'', ''countryBias'', ''continentCode'', ''adminCode1'', ''adminCode2'',
      ''adminCode3'', ''featureClass'', ''featureCode'', ''cities'', ''lang'', ''style'',
      ''isNameRequired'', ''tag'', ''operator'', ''charset'', ''fuzzy'', ''north'', ''east'',
      ''south'', ''west'', ''searchlang'', ''orderby'', ''inclBbox'', ''type'', ''geonameId'',
      ''hierarchy'', ''postalcode'', ''lat'', ''lng'', ''radius'', ''title'', ''minMagnitude'',
      ''date'', ''ICAO'']"
    by (simp add: safe_key_def always_safe_def)
  show ?thesis
    using k by (cases c) (simp_all add: search_pairs_def safe_pair_of safe_iter_pairs)
qed

lemma expected_keys_safe:
  "map (\<lambda>p. quote_plus (fst p)) (expected_pairs self c) = map fst (expected_pairs self c)"
  using expected_pairs_safe[of self c] by (simp add: list_all_iff quote_plus_safe)

lemma run_url_keys:
  assumes "init u s d = Inr self" and "run self c = Inr url"
  shows "url_keys url = ''username'' # map fst (expected_pairs self c)"
proof -
  have q: "quote_plus ''username'' = ''username''"
    by (simp add: quote_plus_def quote_char_def always_safe_def)
  have "url_keys url =
      map (\<lambda>p. quote_plus (fst p)) ((''username'', username self) # expected_pairs self c)"
    unfolding url_keys_def run_query_pairs[OF init_no_qmark[OF assms(1)] assms(2)]
    by (simp add: quote_pair_def comp_def)
  then show ?thesis
    by (simp add: q expected_keys_safe)
qed

lemma key_in_pair_of: "x \<in> fst ` set (pair_of k v) \<longleftrightarrow> x = k \<and> v \<noteq> PNone"
  by (auto simp: pair_of_def)

lemma key_in_iter_pairs: "x \<in> fst ` set (iter_pairs k a) \<longleftrightarrow> x = k \<and> iter_pairs k a \<noteq> []"
proof (cases a)
  case (Val v)
  then show ?thesis by (auto simp: pair_of_def)
next
  case (PList vs)
  have "x \<in> fst ` set (concat (map (pair_of k) vs)) \<longleftrightarrow> x = k \<and> concat (map (pair_of k) vs) \<noteq> []"
    by (induction vs) (auto simp: pair_of_def)
  with PList show ?thesis by simp
qed


lemma search_box_keys:
  assumes "x = ''north'' \<or> x = ''east'' \<or> x = ''south'' \<or> x = ''west''"
  shows "x \<in> fst ` set (search_pairs self a) \<longleftrightarrow>
     north a \<noteq> PNone \<and> east a \<noteq> PNone \<and> south a \<noteq> PNone \<and> west a \<noteq> PNone"
proof (cases "north a \<noteq> PNone \<and> east a \<noteq> PNone \<and> south a \<noteq> PNone \<and> west a \<noteq> PNone")
  case True
  have "x \<in> fst ` set (search_pairs self a)"
    unfolding search_pairs_def if_P[OF True] using assms True
    by (elim disjE) (simp_all add: image_Un key_in_pair_of key_in_iter_pairs)
  with True show ?thesis by simp
next
  case False
  have "x \<notin> fst ` set (search_pairs self a)"
    unfolding search_pairs_def if_not_P[OF False] using assms
    by (elim disjE) (simp_all add: image_Un key_in_pair_of key_in_iter_pairs)
  with False show ?thesis by simp
qed

lemma search_box_free:
  "(\<exists>url. search self (a\<lparr>north := n, east := e, south := s, west := w\<rparr>) = Inr url)
   \<longleftrightarrow> (\<exists>url. search self a = Inr url)"
  by (simp add: search_eq)

text \<open>
  Claim C4: in a URL returned by \<open>search\<close>, each of the keys \<open>north\<close>, \<open>east\<close>,
  \<open>south\<close>, \<open>west\<close> is a key of the query string exactly when all four arguments are
  not \<open>None\<close>; and whatever the four arguments are changed to (any of them \<open>None\<close>), the
  call still returns a URL.
\<close>

theorem search_bounding_box_together:
  assumes "init u s d = Inr self" and "search self a = Inr url"
  shows "(\<forall>x \<in> set [''north'', ''east'', ''south'', ''west''].
           x \<in> set (url_keys url) \<longleftrightarrow>
             north a \<noteq> PNone \<and> east a \<noteq> PNone \<and> south a \<noteq> PNone \<and> west a \<noteq> PNone)
         \<and> (\<forall>n e s w. \<exists>url'. search self (a\<lparr>north := n, east := e, south := s, west := w\<rparr>) = Inr url')"
proof -
  have r: "run self (Search a) = Inr url"
    using assms(2) by simp
  have k: "set (url_keys url) = insert ''username'' (fst ` set (search_pairs self a))"
    using run_url_keys[OF assms(1) r] by simp
  have "\<exists>url'. search self (a\<lparr>north := n, east := e, south := s, west := w\<rparr>) = Inr url'" for n e s w
    using search_box_free assms(2) by blast
  then show ?thesis
    unfolding k by (simp add: search_box_keys)
qed

theorem search_bounding_box_together_witness:
  "init (PStr ''API_KEY'') (PBool True) (PStr ''JSON'') = Inr a_main \<and>
   search a_main (search_defaults\<lparr>q := PStr ''costa del sol'', north := PFloat ''44.1''\<rparr>) =
     Inr ''https://secure.geonames.org/search?username=API_KEY&q=costa+del+sol&type=JSON'' \<and>
   east (search_defaults\<lparr>q := PStr ''costa del sol'', north := PFloat ''44.1''\<rparr>) = PNone \<and>
   ''north'' \<notin> set (url_keys
     ''https://secure.geonames.org/search?username=API_KEY&q=costa+del+sol&type=JSON'') \<and>
   ''east'' \<notin> set (url_keys
     ''https://secure.geonames.org/search?username=API_KEY&q=costa+del+sol&type=JSON'') \<and>
   (\<exists>url'. search a_main
      (search_defaults\<lparr>q := PStr ''costa del sol'', north := PNone, east := PNone,
                        south := PNone, west := PNone\<rparr>) = Inr url')"
proof -
  let ?a = "search_defaults\<lparr>q := PStr ''costa del sol'', north := PFloat ''44.1''\<rparr>"
  note t = search_bounding_box_together[OF init_a_main search_partial_box]
  have e: "east ?a = PNone" by (simp add: search_defaults_def)
  from t e have "''north'' \<notin> set (url_keys
     ''https://secure.geonames.org/search?username=API_KEY&q=costa+del+sol&type=JSON'')"
    and "''east'' \<notin> set (url_keys
     ''https://secure.geonames.org/search?username=API_KEY&q=costa+del+sol&type=JSON'')"
    by simp_all
  moreover from t have "\<exists>url'. search a_main (?a\<lparr>north := PNone, east := PNone,
                        south := PNone, west := PNone\<rparr>) = Inr url'"
    by blast
  ultimately show ?thesis
    using init_a_main search_partial_box e by simp
qed

subsection \<open>C2: the precondition of \<open>search\<close>\<close>




subsection \<open>C3: the bounding-box methods\<close>

text \<open>
  Claim C3 (a URL is returned if and only if all four edges are set): the code asserts
  \<open>all((north, east, south, west))\<close>, so an edge that is set to \<open>0.0\<close>, the equator or the
  prime meridian, fails the assertion in the three methods, whereas
  \<open>cities_and_place_names_bounding_box\<close>, which asserts \<open>None not in (...)\<close> with the same
  message, returns the URL for the same box.
\<close>

theorem bounding_box_edge_zero_rejected:
  "wikipedia_bounding_box a_main (PFloat ''0.0'') (PFloat ''10.5'') (PFloat ''-3.5'')
     (PFloat ''-8.25'') PNone PNone PNone PNone = Inl AssertionError \<and>
   earthquakes_bounding_box a_main (PFloat ''0.0'') (PFloat ''10.5'') (PFloat ''-3.5'')
     (PFloat ''-8.25'') PNone PNone PNone PNone PNone = Inl AssertionError \<and>
   weather_station_bounding_box a_main (PFloat ''0.0'') (PFloat ''10.5'') (PFloat ''-3.5'')
     (PFloat ''-8.25'') PNone PNone PNone = Inl AssertionError \<and>
   cities_and_place_names_bounding_box a_main (PFloat ''0.0'') (PFloat ''10.5'') (PFloat ''-3.5'')
     (PFloat ''-8.25'') PNone PNone PNone PNone =
     Inr ''https://secure.geonames.org/citiesJSON?username=API_KEY&north=0.0&east=10.5&south=-3.5&west=-8.25''"
  by (simp add: wikipedia_bounding_box_def earthquakes_bounding_box_def
      weather_station_bounding_box_def cities_and_place_names_bounding_box_def eval_simps)

subsection \<open>C5: the base URL\<close>

text \<open>
  Claim C5 as stated fails: a configuration constructed with \<open>secure=False\<close> returns a
  URL on the secure host when the call itself passes \<open>secure=True\<close>.
\<close>

theorem secure_argument_overrides_configuration:
  "init (PStr ''API_KEY'') (PBool False) (PStr ''JSON'') = Inr a_plain \<and>
   run a_plain (Hierarchy (PInt 2782113) (PBool True) PNone) =
     Inr ''https://secure.geonames.org/hierarchyJSON?username=API_KEY&geonameId=2782113'' \<and>
   \<not> starts_with ''http://api.geonames.org/''
     ''https://secure.geonames.org/hierarchyJSON?username=API_KEY&geonameId=2782113''"
  by (simp add: init_a_plain hierarchy_def eval_simps)

lemma starts_with_append: "starts_with p (p @ rest)"
  by (simp add: starts_with_def)

text \<open>
  Claim C5, amended: for a configuration constructed with the secure flag \<open>s\<close>, every URL
  returned by an endpoint method begins with \<open>https://secure.geonames.org/\<close> when \<open>s\<close>
  is true or the \<open>secure\<close> argument of the call is true, and with
  \<open>http://api.geonames.org/\<close> otherwise; so every call that leaves \<open>secure\<close> at \<open>None\<close>
  uses the prefix fixed at construction.
\<close>

theorem url_prefix:
  assumes "init u (PBool s) d = Inr self" and "run self c = Inr url"
  shows "starts_with
           (if s \<or> truthy (call_secure c) then ''https://secure.geonames.org/''
            else ''http://api.geonames.org/'') url"
proof -
  from run_shape[OF assms(2)] obtain sfx where
    u: "url = url_of self (call_secure c) (endpoint_name c) sfx (expected_pairs self c)"
    by blast
  have "call_base self (call_secure c) =
      (if s \<or> truthy (call_secure c) then ''https://secure.geonames.org/''
       else ''http://api.geonames.org/'')"
    using init_fields(2)[OF assms(1)] by (simp add: call_base_def create_base_url_def)
  then show ?thesis
    unfolding u url_of_def by (simp add: starts_with_append)
qed

theorem url_prefix_witness:
  "init (PStr ''API_KEY'') (PBool True) (PStr ''JSON'') = Inr a_main \<and>
   run a_main (Hierarchy (PInt 2782113) PNone PNone) =
     Inr ''https://secure.geonames.org/hierarchyJSON?username=API_KEY&geonameId=2782113'' \<and>
   starts_with ''https://secure.geonames.org/''
     ''https://secure.geonames.org/hierarchyJSON?username=API_KEY&geonameId=2782113''"
  using url_prefix[OF init_a_main hierarchy_a_main] init_a_main hierarchy_a_main
  by simp

subsection \<open>C6: determinism\<close>


text \<open>
  A computation that reads the world need not give the same outcome in two states of the
  world: the property below is one of the methods' bodies, not of every computation.
\<close>

lemma from_world_depends_on_world:
  "fst (from_world (\<lambda>w. w) (True, self)) \<noteq> fst (from_world (\<lambda>w. w) (False, self))"
  by (simp add: from_world_def)



subsection \<open>C7: no effect on the configuration\<close>

text \<open>
  An assignment to an attribute changes the object: the property below is one of the
  methods' bodies, not of every computation.
\<close>

lemma set_self_changes_object:
  "snd (set_self (\<lambda>obj. obj\<lparr>username := ''other''\<rparr>) (w, a_main)) \<noteq> (w, a_main)"
  by (simp add: set_self_def a_main_def)

text \<open>
  Claim C7: after any call of any endpoint method, whether it returned a URL or raised an
  exception, the attributes \<open>username\<close>, \<open>_base_url\<close> and \<open>default_output_format\<close> of
  the configuration are what they were before the call.
\<close>

theorem call_leaves_configuration:
  assumes "call_m c (w, self) = (r, (w', self'))"
  shows "username self' = username self \<and> base_url self' = base_url self \<and>
         default_output_format self' = default_output_format self"
  using assms by (simp add: call_m_eq del: call_m.simps)

theorem call_leaves_configuration_witness:
  "call_m (Hierarchy (PInt 0) PNone PNone) (0::nat, a_main) = (Inl AssertionError, (0, a_main)) \<and>
   call_m (Hierarchy (PInt 2782113) PNone PNone) (0::nat, a_main) =
     (Inr ''https://secure.geonames.org/hierarchyJSON?username=API_KEY&geonameId=2782113'',
      (0, a_main)) \<and>
   username a_main = ''API_KEY'' \<and> base_url a_main = ''https://secure.geonames.org/'' \<and>
   default_output_format a_main = ''JSON''"
proof -
  have f: "call_m (Hierarchy (PInt 0) PNone PNone) (0::nat, a_main) =
      (Inl AssertionError, (0, a_main))"
    by (simp add: call_m_eq hierarchy_def create_bare_end_point_def a_main_def del: call_m.simps)
  have g: "call_m (Hierarchy (PInt 2782113) PNone PNone) (0::nat, a_main) =
     (Inr ''https://secure.geonames.org/hierarchyJSON?username=API_KEY&geonameId=2782113'',
      (0, a_main))"
    using hierarchy_a_main by (simp add: call_m_eq del: run.simps call_m.simps)
  from call_leaves_configuration[OF f] call_leaves_configuration[OF g] f g show ?thesis
    by (simp add: a_main_def del: call_m.simps)
qed

subsection \<open>C9: the output format \<open>CSV\<close>\<close>

lemma bare_csv:
  assumes "upper fmt = ''CSV''"
  shows "create_bare_end_point self sec ep (PStr fmt) FNone = Inl TypeError"
proof -
  from assms have "fmt \<noteq> []" by auto
  with assms show ?thesis
    by (simp add: create_bare_end_point_def Let_def)
qed

lemma run_csv:
  assumes "bare_without_formats c" and "call_output_format c = PStr fmt" and "upper fmt = ''CSV''"
  shows "run self c = Inl TypeError"
  using assms(1,2) bare_csv[OF assms(3)]
  by (cases c)
    (simp_all add: cities_and_place_names_bounding_box_def children_def neighbours_def
      hierarchy_def siblings_def postal_code_to_place_name_def wikipedia_find_nearby_def
      wikipedia_fulltext_search_def wikipedia_bounding_box_def earthquakes_bounding_box_def
      weather_station_bounding_box_def weather_station_icao_def weather_station_find_nearby_def
      ocean_def timezone_def)

lemma country_info_csv:
  assumes "upper fmt = ''CSV''" and "none_str_or_list cs"
  shows "country_info self cs lan sec (PStr fmt) =
           Inr (url_of self sec ''countryInfo'' ''CSV''
                  (iter_pairs ''country'' cs @ pair_of ''lang'' lan))"
proof -
  from assms(1) have ne: "fmt \<noteq> []" by auto
  have "create_bare_end_point self sec ''countryInfo'' (PStr fmt) (FStr ''CSV'') =
      Inr (call_base self sec @ ''countryInfo'' @ ''CSV'' @ ''?'', [(''username'', username self)])"
    using assms(1) ne by (simp add: create_bare_end_point_def Let_def upper_char_def call_base_def)
  then show ?thesis
    using assms(2)
    by (simp add: country_info_def add_iterable_eq add_key_value_eq url_of_def)
qed

text \<open>
  Claim C9: with an \<open>output_format\<close> that is \<open>CSV\<close> in any letter case, every method
  that builds its URL through \<open>_create_bare_end_point\<close> without additional output formats
  raises \<open>TypeError\<close> (from \<open>output_format.upper() in None\<close>), whatever its other
  arguments, so it neither returns a URL nor reaches its assertion; \<open>country_info\<close>
  (called with a \<open>country\<close> that is \<open>None\<close>, a \<open>str\<close> or a list) returns a URL whose
  path is \<open>countryInfoCSV\<close>.
\<close>

theorem csv_output_format:
  assumes "upper fmt = ''CSV''"
  shows "(\<forall>c. bare_without_formats c \<and> call_output_format c = PStr fmt \<longrightarrow>
            run self c = Inl TypeError) \<and>
         (\<forall>cs lan sec. none_str_or_list cs \<longrightarrow>
            (\<exists>qs. run self (Country_info cs lan sec (PStr fmt)) =
                     Inr (call_base self sec @ ''countryInfoCSV?'' @ qs)))"
proof (intro conjI allI impI)
  fix c assume "bare_without_formats c \<and> call_output_format c = PStr fmt"
  then show "run self c = Inl TypeError"
    using run_csv[OF _ _ assms] by blast
next
  fix cs lan sec assume "none_str_or_list cs"
  from country_info_csv[OF assms this]
  show "\<exists>qs. run self (Country_info cs lan sec (PStr fmt)) =
          Inr (call_base self sec @ ''countryInfoCSV?'' @ qs)"
    by (simp add: url_of_def)
qed

theorem csv_output_format_witness:
  "upper ''cSv'' = ''CSV'' \<and>
   run a_main (Children (PInt 2782113) PNone PNone PNone (PStr ''cSv'')) = Inl TypeError \<and>
   run a_main (Timezone PNone PNone PNone PNone PNone PNone (PStr ''cSv'')) = Inl TypeError \<and>
   (\<exists>qs. run a_main (Country_info (PList [PStr ''NL'', PStr ''DE'']) PNone PNone (PStr ''cSv'')) =
      Inr (''https://secure.geonames.org/countryInfoCSV?'' @ qs))"
proof -
  have up: "upper ''cSv'' = ''CSV''"
    by (simp add: upper_char_def)
  note t = csv_output_format[OF up, of a_main]
  from t have "run a_main (Children (PInt 2782113) PNone PNone PNone (PStr ''cSv'')) = Inl TypeError"
    by (simp del: run.simps)
  moreover from t
  have "run a_main (Timezone PNone PNone PNone PNone PNone PNone (PStr ''cSv'')) = Inl TypeError"
    by (simp del: run.simps)
  moreover from t
  have "\<exists>qs. run a_main (Country_info (PList [PStr ''NL'', PStr ''DE'']) PNone PNone (PStr ''cSv'')) =
      Inr (call_base a_main PNone @ ''countryInfoCSV?'' @ qs)"
    by (simp del: run.simps)
  then have "\<exists>qs. run a_main (Country_info (PList [PStr ''NL'', PStr ''DE'']) PNone PNone (PStr ''cSv'')) =
      Inr (''https://secure.geonames.org/countryInfoCSV?'' @ qs)"
    by (simp add: call_base_def a_main_def del: run.simps)
  ultimately show ?thesis using up by blast
qed

subsection \<open>C10: the coordinates of \<open>timezone\<close>, \<open>ocean\<close> and \<open>weather_station_find_nearby\<close>\<close>

lemma bare_accepted:
  assumes "format_accepted fmt"
  shows "\<exists>url. create_bare_end_point self sec ep fmt FNone = Inr (url, [(''username'', username self)])"
  using assms by (cases fmt) (auto simp: create_bare_end_point_def Let_def)

lemma coordinate_check:
  assumes "format_accepted fmt"
    and "c \<in> {Timezone lat lng rad lan dt sec fmt, Ocean lat lng rad sec fmt,
              Weather_station_find_nearby lat lng rad sec fmt}"
  shows "run self c = Inl AssertionError \<longleftrightarrow> \<not> truthy lat \<and> \<not> truthy lng"
    and "truthy lat \<or> truthy lng \<Longrightarrow> \<exists>url. run self c = Inr url"
proof -
  from bare_accepted[OF assms(1)] obtain u1 u2 u3 where
    "create_bare_end_point self sec ''timezone'' fmt FNone = Inr (u1, [(''username'', username self)])"
    "create_bare_end_point self sec ''ocean'' fmt FNone = Inr (u2, [(''username'', username self)])"
    "create_bare_end_point self sec ''findNearByWeather'' fmt FNone =
       Inr (u3, [(''username'', username self)])"
    by metis
  with assms(2)
  show "run self c = Inl AssertionError \<longleftrightarrow> \<not> truthy lat \<and> \<not> truthy lng"
    and "truthy lat \<or> truthy lng \<Longrightarrow> \<exists>url. run self c = Inr url"
    by (auto simp: timezone_def ocean_def weather_station_find_nearby_def Let_def)
qed

lemma coordinate_keys:
  assumes "c \<in> {Timezone lat lng rad lan dt sec fmt, Ocean lat lng rad sec fmt,
              Weather_station_find_nearby lat lng rad sec fmt}"
  shows "''lat'' \<in> fst ` set (expected_pairs self c) \<longleftrightarrow> lat \<noteq> PNone"
    and "''lng'' \<in> fst ` set (expected_pairs self c) \<longleftrightarrow> lng \<noteq> PNone"
proof -
  from assms have "c = Timezone lat lng rad lan dt sec fmt \<or> c = Ocean lat lng rad sec fmt \<or>
      c = Weather_station_find_nearby lat lng rad sec fmt"
    by simp
  then show "''lat'' \<in> fst ` set (expected_pairs self c) \<longleftrightarrow> lat \<noteq> PNone"
    and "''lng'' \<in> fst ` set (expected_pairs self c) \<longleftrightarrow> lng \<noteq> PNone"
    by (elim disjE; simp add: image_Un key_in_pair_of)+
qed

text \<open>
  Claim C10: the coordinate check of \<open>timezone\<close>, \<open>ocean\<close> and
  \<open>weather_station_find_nearby\<close> (called with an output format that
  \<open>_create_bare_end_point\<close> accepts) asks for one true coordinate and no more. The call
  raises the assertion error exactly when latitude and longitude are both false, so
  \<open>latitude=0, longitude=0\<close>, both provided, is refused. With at least one of them true
  (and no argument an \<open>int\<close> of more than 4300 digits) the call returns a URL whose query
  string has the key \<open>lat\<close> exactly when latitude is not \<open>None\<close> and the key \<open>lng\<close>
  exactly when longitude is not \<open>None\<close>: a nonzero latitude with \<open>longitude=None\<close> gives a
  URL with \<open>lat\<close> and without \<open>lng\<close>.
\<close>

theorem one_true_coordinate_suffices:
  assumes "init u s d = Inr self" and "format_accepted fmt"
    and "c \<in> {Timezone lat lng rad lan dt sec fmt, Ocean lat lng rad sec fmt,
              Weather_station_find_nearby lat lng rad sec fmt}"
  shows "(run self c = Inl AssertionError \<longleftrightarrow> \<not> truthy lat \<and> \<not> truthy lng) \<and>
         ((truthy lat \<or> truthy lng) \<and> list_all within_str_limit (call_args c) \<longrightarrow>
            (\<exists>url. run self c = Inr url \<and>
                   (''lat'' \<in> set (url_keys url) \<longleftrightarrow> lat \<noteq> PNone) \<and>
                   (''lng'' \<in> set (url_keys url) \<longleftrightarrow> lng \<noteq> PNone)))"
proof (intro conjI impI)
  show "run self c = Inl AssertionError \<longleftrightarrow> \<not> truthy lat \<and> \<not> truthy lng"
    by (rule coordinate_check(1)[OF assms(2,3)])
next
  assume a: "(truthy lat \<or> truthy lng) \<and> list_all within_str_limit (call_args c)"
  then obtain url where r: "run self c = Inr url"
    using coordinate_check(2)[OF assms(2,3)] by blast
  from coordinate_keys[OF assms(3), of self] run_url_keys[OF assms(1) r]
  have "(''lat'' \<in> set (url_keys url) \<longleftrightarrow> lat \<noteq> PNone) \<and>
        (''lng'' \<in> set (url_keys url) \<longleftrightarrow> lng \<noteq> PNone)"
    by simp
  with r show "\<exists>url. run self c = Inr url \<and>
                   (''lat'' \<in> set (url_keys url) \<longleftrightarrow> lat \<noteq> PNone) \<and>
                   (''lng'' \<in> set (url_keys url) \<longleftrightarrow> lng \<noteq> PNone)"
    by blast
qed

lemma ocean_lat_only:
  "run a_main (Ocean (PFloat ''52.008544'') PNone PNone PNone PNone) =
     Inr ''https://secure.geonames.org/oceanJSON?username=API_KEY&lat=52.008544''"
  by (simp add: ocean_def eval_simps)

lemma ocean_lng_only:
  "run a_main (Ocean PNone (PFloat ''4.093947'') PNone PNone PNone) =
     Inr ''https://secure.geonames.org/oceanJSON?username=API_KEY&lng=4.093947''"
  by (simp add: ocean_def eval_simps)

theorem one_true_coordinate_suffices_witness:
  "init (PStr ''API_KEY'') (PBool True) (PStr ''JSON'') = Inr a_main \<and>
   run a_main (Ocean (PFloat ''52.008544'') PNone PNone PNone PNone) =
     Inr ''https://secure.geonames.org/oceanJSON?username=API_KEY&lat=52.008544'' \<and>
   ''lat'' \<in> set (url_keys ''https://secure.geonames.org/oceanJSON?username=API_KEY&lat=52.008544'') \<and>
   ''lng'' \<notin> set (url_keys ''https://secure.geonames.org/oceanJSON?username=API_KEY&lat=52.008544'') \<and>
   run a_main (Ocean PNone (PFloat ''4.093947'') PNone PNone PNone) =
     Inr ''https://secure.geonames.org/oceanJSON?username=API_KEY&lng=4.093947'' \<and>
   ''lat'' \<notin> set (url_keys ''https://secure.geonames.org/oceanJSON?username=API_KEY&lng=4.093947'') \<and>
   ''lng'' \<in> set (url_keys ''https://secure.geonames.org/oceanJSON?username=API_KEY&lng=4.093947'') \<and>
   run a_main (Timezone (PInt 0) (PInt 0) PNone PNone PNone PNone PNone) = Inl AssertionError"
proof -
  have f: "format_accepted PNone" by simp
  have "Ocean (PFloat ''52.008544'') PNone PNone PNone PNone \<in>
      {Timezone (PFloat ''52.008544'') PNone PNone PNone PNone PNone PNone,
       Ocean (PFloat ''52.008544'') PNone PNone PNone PNone,
       Weather_station_find_nearby (PFloat ''52.008544'') PNone PNone PNone PNone}"
    by simp
  from one_true_coordinate_suffices[OF init_a_main f this] ocean_lat_only
  have 1: "''lat'' \<in> set (url_keys ''https://secure.geonames.org/oceanJSON?username=API_KEY&lat=52.008544'') \<and>
   ''lng'' \<notin> set (url_keys ''https://secure.geonames.org/oceanJSON?username=API_KEY&lat=52.008544'')"
    by (simp del: run.simps)
  have "Ocean PNone (PFloat ''4.093947'') PNone PNone PNone \<in>
      {Timezone PNone (PFloat ''4.093947'') PNone PNone PNone PNone PNone,
       Ocean PNone (PFloat ''4.093947'') PNone PNone PNone,
       Weather_station_find_nearby PNone (PFloat ''4.093947'') PNone PNone PNone}"
    by simp
  from one_true_coordinate_suffices[OF init_a_main f this] ocean_lng_only
  have 2: "''lat'' \<notin> set (url_keys ''https://secure.geonames.org/oceanJSON?username=API_KEY&lng=4.093947'') \<and>
   ''lng'' \<in> set (url_keys ''https://secure.geonames.org/oceanJSON?username=API_KEY&lng=4.093947'')"
    by (simp del: run.simps)
  have "Timezone (PInt 0) (PInt 0) PNone PNone PNone PNone PNone \<in>
      {Timezone (PInt 0) (PInt 0) PNone PNone PNone PNone PNone,
       Ocean (PInt 0) (PInt 0) PNone PNone PNone,
       Weather_station_find_nearby (PInt 0) (PInt 0) PNone PNone PNone}"
    by simp
  from one_true_coordinate_suffices[OF init_a_main f this]
  have 3: "run a_main (Timezone (PInt 0) (PInt 0) PNone PNone PNone PNone PNone) = Inl AssertionError"
    by (simp del: run.simps)
  from 1 2 3 init_a_main ocean_lat_only ocean_lng_only show ?thesis by blast
qed

end
